theory Spec2Isabelle
  imports Main "HOL-Library.List_Lexorder" "HOL-Library.Char_ord"
begin

section \<open>JavaScript values and errors\<close>

text \<open>
  The SDK is TypeScript running on a JavaScript engine. The few dynamically typed values
  the modelled code inspects (the argument of \<open>enableLocalMode\<close>, the value stored under
  \<open>context/socketUrl\<close>, action messages, training options) are values of \<open>js_value\<close>;
  an object is its list of own keys, each once, in insertion order.
\<close>

datatype js_value =
    JUndefined
  | JNull
  | JBool bool
  | JNum int
  | JStr string
  | JArr "js_value list"
  | JObj "(string \<times> js_value) list"

text \<open>JavaScript truthiness, as \<open>!x\<close> and \<open>x && y\<close> read it.\<close>

fun truthy :: "js_value \<Rightarrow> bool" where
  "truthy JUndefined = False"
| "truthy JNull = False"
| "truthy (JBool b) = b"
| "truthy (JNum n) = (n \<noteq> 0)"
| "truthy (JStr s) = (s \<noteq> [])"
| "truthy (JArr vs) = True"
| "truthy (JObj kvs) = True"

text \<open>An optional string (\<open>string | undefined\<close>) is truthy when present and not empty.\<close>

fun truthy_str :: "string option \<Rightarrow> bool" where
  "truthy_str None = False"
| "truthy_str (Some s) = (s \<noteq> [])"

text \<open>
  Object spread \<open>{...a, ...b}\<close>: the keys of \<open>b\<close> are written over \<open>a\<close> in order; a key
  that \<open>a\<close> already has keeps its position, a new key is appended.
\<close>

fun obj_set :: "string \<Rightarrow> js_value \<Rightarrow> (string \<times> js_value) list \<Rightarrow> (string \<times> js_value) list" where
  "obj_set k v [] = [(k, v)]"
| "obj_set k v ((k', v') # kvs) = (if k = k' then (k, v) # kvs else (k', v') # obj_set k v kvs)"

fun obj_spread :: "(string \<times> js_value) list \<Rightarrow> (string \<times> js_value) list \<Rightarrow> (string \<times> js_value) list" where
  "obj_spread a [] = a"
| "obj_spread a ((k, v) # kvs) = obj_spread (obj_set k v a) kvs"

text \<open>
  The order in which \<open>for (const key in obj)\<close> and the spread \<open>{...obj}\<close> visit the own keys of
  an object: the keys that are array indices (canonical decimal numerals below \<open>2^32 - 1\<close>)
  first, in ascending numeric order, then the other keys in insertion order. An object is
  held as the list of its own properties, each key once, in the order they were written;
  wherever the source enumerates an object it is read through \<open>for_in\<close>.
\<close>

definition is_digit :: "char \<Rightarrow> bool" where
  "is_digit c = (c \<in> set ''0123456789'')"

definition digit_value :: "char \<Rightarrow> nat" where
  "digit_value c = length (takeWhile (\<lambda>d. d \<noteq> c) ''0123456789'')"

definition index_value :: "string \<Rightarrow> nat" where
  "index_value k = foldl (\<lambda>a c. 10 * a + digit_value c) 0 k"

definition is_array_index :: "string \<Rightarrow> bool" where
  "is_array_index k =
     (k \<noteq> [] \<and> list_all is_digit k \<and> (k = ''0'' \<or> hd k \<noteq> CHR ''0'')
      \<and> index_value k < 4294967295)"

definition for_in :: "(string \<times> 'a) list \<Rightarrow> (string \<times> 'a) list" where
  "for_in kvs =
     sort_key (\<lambda>kv. index_value (fst kv)) (filter (\<lambda>kv. is_array_index (fst kv)) kvs)
     @ filter (\<lambda>kv. \<not> is_array_index (fst kv)) kvs"

text \<open>
  Every error the source builds is \<open>new Error(message)\<close> or \<open>new TypeError(message)\<close>.
  \<open>ScopeError\<close> is the error of the capability guard (\<open>utils/oauth\<close>), which names the
  missing scope.
\<close>

datatype js_error =
    Error string
  | TypeError string
  | ScopeError string

subsection \<open>utils/errors.ts\<close>

definition prefix :: string where
  "prefix = ''Neurosity SDK: ''"

definition mustSelectDevice :: js_error where
  "mustSelectDevice =
     Error (prefix @ ''A device must be selected. Make sure to call '' @ [CHR 0x22]
            @ ''notion.selectDevice()'' @ [CHR 0x22])"

definition metricNotSupportedByModel :: "string \<Rightarrow> string \<Rightarrow> js_error" where
  "metricNotSupportedByModel metric modelVersion =
     Error (prefix @ metric @ '' not supported on model version '' @ modelVersion
            @ ''. See docs.neurosity.co for more info.'')"

definition actionNotSupportedByOSVersion :: "string \<Rightarrow> string \<Rightarrow> string \<Rightarrow> js_error" where
  "actionNotSupportedByOSVersion metric act osVersion =
     Error (prefix @ metric @ ''/'' @ act @ '' not supported on OS version '' @ osVersion
            @ ''. See docs.neurosity.co for more info.'')"

definition locationNotFound :: "string \<Rightarrow> string \<Rightarrow> js_error" where
  "locationNotFound location modelVersion =
     Error (prefix @ location @ '' location not supported on model version '' @ modelVersion
            @ ''. Check spelling or see docs.neurosity.co for more info.'')"

text \<open>The decimal digits of a number, as a template string renders it.\<close>

definition digit :: "nat \<Rightarrow> char" where
  "digit d = ''0123456789'' ! d"

fun decimal :: "nat \<Rightarrow> string" where
  "decimal n = (if n div 10 = 0 then [digit n] else decimal (n div 10) @ [digit (n mod 10)])"

definition exceededMaxItems :: "nat \<Rightarrow> js_error" where
  "exceededMaxItems maxItems = Error (prefix @ ''Maximum items in array is '' @ decimal maxItems)"

section \<open>Options\<close>

text \<open>
  \<open>NotionOptions\<close> is what the caller passes to the constructor: every key may be absent
  (\<open>None\<close>). \<open>IOptions\<close> is the object the instance keeps, after the defaults are merged in.
\<close>

record NotionOptions =
  given_deviceId :: "string option"
  given_onDeviceSocketUrl :: "string option"
  given_timesync :: "bool option"
  given_autoSelectDevice :: "bool option"
  given_emulator :: "bool option"
  given_emulatorHost :: "string option"
  given_emulatorAuthPort :: "int option"
  given_emulatorDatabasePort :: "int option"
  given_emulatorFunctionsPort :: "int option"
  given_emulatorFirestorePort :: "int option"

record IOptions =
  deviceId :: "string option"
  onDeviceSocketUrl :: "string option"
  timesync :: bool
  autoSelectDevice :: bool
  emulator :: bool
  emulatorHost :: string
  emulatorAuthPort :: int
  emulatorDatabasePort :: int
  emulatorFunctionsPort :: int
  emulatorFirestorePort :: int

definition defaultOptions :: IOptions where
  "defaultOptions =
     \<lparr> deviceId = None, onDeviceSocketUrl = None,
       timesync = False, autoSelectDevice = True, emulator = False,
       emulatorHost = ''localhost'', emulatorAuthPort = 9099, emulatorDatabasePort = 9000,
       emulatorFunctionsPort = 5001, emulatorFirestorePort = 8080 \<rparr>"

text \<open>\<open>{...defaultOptions, ...options}\<close>: a key the caller gives wins over the default.\<close>

definition or_default :: "'a option \<Rightarrow> 'a \<Rightarrow> 'a" where
  "or_default given dflt = (case given of None \<Rightarrow> dflt | Some v \<Rightarrow> v)"

definition merge_options :: "IOptions \<Rightarrow> NotionOptions \<Rightarrow> IOptions" where
  "merge_options d g =
     \<lparr> deviceId = given_deviceId g,
       onDeviceSocketUrl = given_onDeviceSocketUrl g,
       timesync = or_default (given_timesync g) (timesync d),
       autoSelectDevice = or_default (given_autoSelectDevice g) (autoSelectDevice d),
       emulator = or_default (given_emulator g) (emulator d),
       emulatorHost = or_default (given_emulatorHost g) (emulatorHost d),
       emulatorAuthPort = or_default (given_emulatorAuthPort g) (emulatorAuthPort d),
       emulatorDatabasePort = or_default (given_emulatorDatabasePort g) (emulatorDatabasePort d),
       emulatorFunctionsPort = or_default (given_emulatorFunctionsPort g) (emulatorFunctionsPort d),
       emulatorFirestorePort = or_default (given_emulatorFirestorePort g) (emulatorFirestorePort d) \<rparr>"

section \<open>Clock synchronisation\<close>

text \<open>
  Modelled from the spec: the \<open>Timesync\<close> class (\<open>src/timesync\<close>, imported by
  \<open>api/index.ts\<close>) is not among the sources. A probe records the client's send time, the
  time the device echoed and the client's receive time, all in milliseconds.
\<close>

record probe =
  sendTime :: int
  deviceTime :: int
  receiveTime :: int

text \<open>Modelled from the spec: the round-trip latency of a probe.\<close>

definition latency :: "probe \<Rightarrow> int" where
  "latency p = receiveTime p - sendTime p"

text \<open>
  Modelled from the spec: \<open>deviceTime - (sendTime + receiveTime)/2\<close>. The spec's
  \<open>offsetMillis\<close> is a signed integer, so the halving is integer division.
\<close>

definition estimate :: "probe \<Rightarrow> int" where
  "estimate p = deviceTime p - (sendTime p + receiveTime p) div 2"

text \<open>
  Modelled from the spec: the sample with the smallest round-trip latency; the earliest
  one wins a tie.
\<close>

fun best_probe :: "probe \<Rightarrow> probe list \<Rightarrow> probe" where
  "best_probe b [] = b"
| "best_probe b (p # ps) = best_probe (if latency p < latency b then p else b) ps"

text \<open>
  Modelled from the spec: the state of the Clock Synchronization Service, \<open>ClockOffset\<close>
  with the sliding window of samples and its size.
\<close>

record Timesync =
  enabled :: bool
  windowSize :: nat
  window :: "probe list"
  offsetMillis :: int
  lastSampleTime :: "int option"

text \<open>Modelled from the spec: a service that has not been enabled, with offset 0.\<close>

definition Timesync_new :: "nat \<Rightarrow> Timesync" where
  "Timesync_new n =
     \<lparr> enabled = False, windowSize = n, window = [], offsetMillis = 0, lastSampleTime = None \<rparr>"

text \<open>Modelled from the spec: \<open>enable()\<close> begins probing.\<close>

definition enable :: "Timesync \<Rightarrow> Timesync" where
  "enable ts = ts\<lparr>enabled := True\<rparr>"

text \<open>Modelled from the spec: the last \<open>n\<close> samples are the sliding window.\<close>

definition slide :: "nat \<Rightarrow> probe list \<Rightarrow> probe list" where
  "slide n ps = drop (length ps - n) ps"

text \<open>
  Modelled from the spec: one probe. \<open>None\<close> is a probe that timed out: the last known
  offset is retained. The offset is recomputed only while synchronisation is enabled.
\<close>

definition on_probe :: "probe option \<Rightarrow> Timesync \<Rightarrow> Timesync" where
  "on_probe r ts =
     (case r of
        None \<Rightarrow> ts
      | Some p \<Rightarrow>
          if \<not> enabled ts then ts
          else (case slide (windowSize ts) (window ts @ [p]) of
                  [] \<Rightarrow> ts\<lparr>lastSampleTime := Some (receiveTime p)\<rparr>
                | b # bs \<Rightarrow>
                    ts\<lparr>window := b # bs,
                       offsetMillis := estimate (best_probe b bs),
                       lastSampleTime := Some (receiveTime p)\<rparr>))"

text \<open>
  Modelled from the spec: \<open>now()\<close> is \<open>localTime + offsetMillis\<close>, and unsynchronised local
  time while disabled.
\<close>

definition now :: "Timesync \<Rightarrow> int \<Rightarrow> int" where
  "now ts localTime = (if enabled ts then localTime + offsetMillis ts else localTime)"

section \<open>Metric subscriptions\<close>

text \<open>
  The transport that carries a subscription: \<open>firebase.serverType\<close> is \<open>Cloud\<close>,
  \<open>onDeviceSocket.serverType\<close> is \<open>LocalSocket\<close>.
\<close>

datatype TransportKind = Cloud | LocalSocket

record MetricSubscriptionRequest =
  metric :: string
  labels :: "string list"
  atomic :: bool

text \<open>\<open>{...subscription, serverType}\<close>, the argument of \<open>firebase.subscribeToMetric\<close>.\<close>

record RoutedRequest = MetricSubscriptionRequest +
  serverType :: TransportKind

text \<open>The subscription \<open>firebase.subscribeToMetric\<close> returns: the handle of a logical listener.\<close>

record Subscription = RoutedRequest +
  subscriptionId :: nat

subsection \<open>Subscription Multiplexer\<close>

text \<open>
  Modelled from the spec: \<open>FirebaseClient\<close> (\<open>api/firebase\<close>) is not among the sources;
  its \<open>subscribeToMetric\<close> and \<open>unsubscribFromMetric\<close> are the multiplexer's \<open>subscribe\<close> and
  \<open>unsubscribe\<close> of the spec. The key of a physical subscription is
  (metric, sorted label set, atomic flag, transport kind).
\<close>

type_synonym PhysicalKey = "string \<times> string list \<times> bool \<times> TransportKind"

text \<open>Modelled from the spec: the normalised, sorted label set.\<close>

definition normalize_labels :: "string list \<Rightarrow> string list" where
  "normalize_labels ls = sort (remdups ls)"

text \<open>Modelled from the spec: the key a routed request normalises to.\<close>

definition key_of :: "RoutedRequest \<Rightarrow> PhysicalKey" where
  "key_of r = (metric r, normalize_labels (labels r), atomic r, serverType r)"

text \<open>Modelled from the spec: \<open>PhysicalSubscription\<close>.\<close>

record PhysicalSubscription =
  key :: PhysicalKey
  transportHandle :: nat
  listenerCount :: int

text \<open>
  Modelled from the spec: the multiplexer's table of physical subscriptions, the attached
  logical listeners (subscription id and key), the next subscription id, and the next
  transport handle, which is also the number of physical subscriptions created so far.
\<close>

record Multiplexer =
  table :: "PhysicalSubscription list"
  attached :: "(nat \<times> PhysicalKey) list"
  nextSubscriptionId :: nat
  nextTransportHandle :: nat

text \<open>Modelled from the spec: no subscription yet.\<close>

definition Multiplexer_new :: Multiplexer where
  "Multiplexer_new = \<lparr> table = [], attached = [], nextSubscriptionId = 0, nextTransportHandle = 0 \<rparr>"

text \<open>
  Modelled from the spec: on subscribe, a physical subscription with the key gets one more
  listener; otherwise one is created through the routed transport with \<open>listenerCount\<close> 1.
\<close>

definition subscribeToMetric :: "RoutedRequest \<Rightarrow> Multiplexer \<Rightarrow> Subscription \<times> Multiplexer" where
  "subscribeToMetric r m =
     (let k = key_of r;
          h = nextSubscriptionId m;
          sub = \<lparr> metric = metric r, labels = labels r, atomic = atomic r,
                  serverType = serverType r, subscriptionId = h \<rparr>;
          m1 = m\<lparr>attached := attached m @ [(h, k)], nextSubscriptionId := Suc h\<rparr>
      in if \<exists>p \<in> set (table m). key p = k
         then (sub, m1\<lparr>table :=
                 map (\<lambda>p. if key p = k then p\<lparr>listenerCount := listenerCount p + 1\<rparr> else p)
                     (table m)\<rparr>)
         else (sub, m1\<lparr>table := table m @
                   [\<lparr> key = k, transportHandle = nextTransportHandle m, listenerCount = 1 \<rparr>],
                 nextTransportHandle := Suc (nextTransportHandle m)\<rparr>))"

text \<open>
  Modelled from the spec: on unsubscribe, the listener is detached and the count of its
  physical subscription decremented; at 0 the physical subscription is torn down. A handle
  that is not attached (any more) changes nothing.
\<close>

definition unsubscribFromMetric :: "nat \<Rightarrow> Multiplexer \<Rightarrow> Multiplexer" where
  "unsubscribFromMetric h m =
     (case map_of (attached m) h of
        None \<Rightarrow> m
      | Some k \<Rightarrow>
          m\<lparr>attached := filter (\<lambda>(h', k'). h' \<noteq> h) (attached m),
            table :=
              filter (\<lambda>p. \<not> (key p = k \<and> listenerCount p = 0))
                (map (\<lambda>p. if key p = k then p\<lparr>listenerCount := listenerCount p - 1\<rparr> else p)
                     (table m))\<rparr>)"

section \<open>The API client (api/index.ts)\<close>

record Action =
  command :: string
  action :: string
  message :: "(string \<times> js_value) list"
  responseRequired :: bool
  responseTimeout :: "int option"

text \<open>
  The calls the modelled code makes on its collaborators, in order: the cloud client
  (\<open>firebase\<close>), the on-device socket, \<open>getMetric\<close> of \<open>utils/metrics\<close>, and the methods of
  the API client that the sources do not define (\<open>Api name\<close>).
\<close>

datatype call =
    Firebase_dispatchAction Action
  | Firebase_disconnect
  | Firebase_getInfo
  | Firebase_login js_value
  | Firebase_onStatus
  | Firebase_offStatus
  | Firebase_nextMetric string js_value
  | Firebase_onMetric Subscription
  | Firebase_subscribeToMetric RoutedRequest
  | Firebase_unsubscribFromMetric Subscription
  | Firebase_getSkill string
  | Socket_disconnect
  | Socket_onMetric Subscription
  | GetMetric MetricSubscriptionRequest
  | Api_onceNamespace string
  | Api_observeNamespace string
  | Https string
  | Api string

record WebsocketClient =
  ws_deviceId :: "string option"
  ws_socketUrl :: string

record DeviceInfo =
  device_deviceId :: string
  deviceNickname :: string
  modelVersion :: string

text \<open>
  What the code reads from outside the instance: the clock, the keys of the \<open>metrics\<close>
  table of \<open>@neurosity/ipk\<close>, the scope tables of \<open>utils/oauth\<close>, \<open>getLabels\<close> of
  \<open>utils/subscription\<close>, \<open>isNode\<close>, the window size of the clock synchronisation, what
  the collaborators answer (\<open>firebase.login\<close>, \<open>firebase.getSkill\<close> and
  \<open>api.onceNamespace("context/socketUrl")\<close>; \<open>Inl\<close> is a rejected promise), and the
  functions and constants of \<open>utils/platform\<close> and \<open>utils/hapticEffects\<close>.
\<close>

record world =
  date_now :: int
  ipk_metrics :: "string list"
  scopeRequiredByFunctionName :: "string \<Rightarrow> string"
  scopeRequiredByAction :: "string \<Rightarrow> string \<Rightarrow> string"
  getLabels :: "string \<Rightarrow> string list"
  isNode :: bool
  timesync_window :: nat
  firebase_login :: "js_error + js_value"
  firebase_getSkill :: "js_error + js_value"
  once_socketUrl :: "js_error + js_value"
  supportsHaptics :: "string \<Rightarrow> bool"
  supportsAccel :: "string \<Rightarrow> bool"
  getPlatformHapticMotors :: "string \<Rightarrow> (string \<times> string list) list"
  MODEL_VERSION_1 :: string
  hapticEffects :: js_value

text \<open>
  The fields of \<open>ApiClient\<close>; \<open>firebase\<close> holds the multiplexer of the cloud client.
  \<open>selectedDevice\<close>, \<open>userClaims\<close> and \<open>user\<close> are what \<open>api.didSelectDevice()\<close>,
  \<open>api.userClaims\<close> and \<open>api.user\<close> read; \<open>trace\<close> records the calls made.
\<close>

record ApiClient =
  api_options :: IOptions
  firebase :: Multiplexer
  onDeviceSocket :: "WebsocketClient option"
  api_timesync :: "Timesync option"
  selectedDevice :: "DeviceInfo option"
  userClaims :: "string set"
  user :: "string option"
  trace :: "call list"

definition isNotionMetric :: "world \<Rightarrow> string \<Rightarrow> bool" where
  "isNotionMetric w m = (m \<in> set (ipk_metrics w))"

definition ApiClient_new :: "IOptions \<Rightarrow> ApiClient" where
  "ApiClient_new opts =
     \<lparr> api_options = opts,
       firebase = Multiplexer_new,
       onDeviceSocket =
         (case onDeviceSocketUrl opts of
            None \<Rightarrow> None
          | Some url \<Rightarrow>
              if url \<noteq> [] then Some \<lparr> ws_deviceId = deviceId opts, ws_socketUrl = url \<rparr>
              else None),
       api_timesync = None,
       selectedDevice = None,
       userClaims = {},
       user = None,
       trace = [] \<rparr>"

definition record_call :: "call \<Rightarrow> ApiClient \<Rightarrow> ApiClient" where
  "record_call c a = a\<lparr>trace := trace a @ [c]\<rparr>"

definition actions_dispatch :: "Action \<Rightarrow> ApiClient \<Rightarrow> ApiClient" where
  "actions_dispatch act a = record_call (Firebase_dispatchAction act) a"

definition api_disconnect :: "ApiClient \<Rightarrow> ApiClient" where
  "api_disconnect a =
     record_call Firebase_disconnect
       (if onDeviceSocket a \<noteq> None then record_call Socket_disconnect a else a)"

definition api_getInfo :: "ApiClient \<Rightarrow> ApiClient" where
  "api_getInfo a = record_call Firebase_getInfo a"

text \<open>
  \<open>login\<close>: the clock synchronisation is created when a user came back and
  \<open>options.timesync\<close> is set. Nothing in the sources calls it after \<open>new Timesync\<close> but to
  read \<open>timestamp\<close>, so the constructor is taken to enable it.
\<close>

definition api_login :: "world \<Rightarrow> js_value \<Rightarrow> ApiClient \<Rightarrow> (js_error + js_value) \<times> ApiClient" where
  "api_login w credentials a =
     (let a1 = record_call (Firebase_login credentials) a in
      case firebase_login w of
        Inl e \<Rightarrow> (Inl e, a1)
      | Inr u \<Rightarrow>
          (Inr u,
           if truthy u \<and> timesync (api_options a1)
           then a1\<lparr>api_timesync := Some (enable (Timesync_new (timesync_window w)))\<rparr>
           else a1))"

definition onStatus :: "ApiClient \<Rightarrow> ApiClient" where
  "onStatus a = record_call Firebase_onStatus a"

definition offStatus :: "ApiClient \<Rightarrow> ApiClient" where
  "offStatus a = record_call Firebase_offStatus a"

subsection \<open>metrics\<close>

definition shouldRerouteToDevice :: "world \<Rightarrow> ApiClient \<Rightarrow> string \<Rightarrow> bool" where
  "shouldRerouteToDevice w a m = (onDeviceSocket a \<noteq> None \<and> isNotionMetric w m)"

text \<open>The transport \<open>metrics.on\<close> and \<open>metrics.subscribe\<close> pick for a metric.\<close>

definition route :: "world \<Rightarrow> ApiClient \<Rightarrow> string \<Rightarrow> TransportKind" where
  "route w a m = (if shouldRerouteToDevice w a m then LocalSocket else Cloud)"

definition metrics_next :: "string \<Rightarrow> js_value \<Rightarrow> ApiClient \<Rightarrow> ApiClient" where
  "metrics_next metricName metricValue a = record_call (Firebase_nextMetric metricName metricValue) a"

definition metrics_on :: "world \<Rightarrow> Subscription \<Rightarrow> ApiClient \<Rightarrow> ApiClient" where
  "metrics_on w sub a =
     (if shouldRerouteToDevice w a (metric sub) then record_call (Socket_onMetric sub) a
      else record_call (Firebase_onMetric sub) a)"

definition routed :: "world \<Rightarrow> ApiClient \<Rightarrow> MetricSubscriptionRequest \<Rightarrow> RoutedRequest" where
  "routed w a r =
     \<lparr> metric = metric r, labels = labels r, atomic = atomic r,
       serverType = (if shouldRerouteToDevice w a (metric r) then LocalSocket else Cloud) \<rparr>"

definition metrics_subscribe :: "world \<Rightarrow> MetricSubscriptionRequest \<Rightarrow> ApiClient \<Rightarrow> Subscription \<times> ApiClient" where
  "metrics_subscribe w r a =
     (let rr = routed w a r;
          (subscriptionCreated, fb) = subscribeToMetric rr (firebase a)
      in (subscriptionCreated, record_call (Firebase_subscribeToMetric rr) (a\<lparr>firebase := fb\<rparr>)))"

definition metrics_unsubscribe :: "Subscription \<Rightarrow> ApiClient \<Rightarrow> ApiClient" where
  "metrics_unsubscribe sub a =
     record_call (Firebase_unsubscribFromMetric sub)
       (a\<lparr>firebase := unsubscribFromMetric (subscriptionId sub) (firebase a)\<rparr>)"

definition skills_get :: "string \<Rightarrow> ApiClient \<Rightarrow> ApiClient" where
  "skills_get bundleId a = record_call (Firebase_getSkill bundleId) a"

text \<open>
  \<open>timestamp\<close>: \<open>this.timesync\<close> is assigned by \<open>login\<close> only, so with \<open>options.timesync\<close>
  set and no login the read of \<open>this.timesync.timestamp\<close> throws a \<open>TypeError\<close>.
\<close>

definition timestamp :: "world \<Rightarrow> ApiClient \<Rightarrow> js_error + int" where
  "timestamp w a =
     (if timesync (api_options a)
      then (case api_timesync a of
              None \<Rightarrow> Inl (TypeError ''Cannot read properties of undefined (reading 'timestamp')'')
            | Some ts \<Rightarrow> Inr (now ts (date_now w)))
      else Inr (date_now w))"

section \<open>Capability guard\<close>

text \<open>
  Modelled from the spec: \<open>utils/oauth\<close> is not among the sources. \<open>authorize\<close> denies an
  operation when the scope it requires is absent from the claims, with a \<open>ScopeError\<close>
  naming the scope; it is a pure function of the claims and the operation.
\<close>

definition authorize :: "string set \<Rightarrow> string \<Rightarrow> js_error option" where
  "authorize claims scope = (if scope \<in> claims then None else Some (ScopeError scope))"

text \<open>
  Modelled from the spec: the guard by operation name, over the static table from
  operation names to scopes. \<open>Some e\<close> is the source's \<open>[true, e]\<close>, \<open>None\<close> its
  \<open>[false, null]\<close>.
\<close>

definition validateOAuthScopeForFunctionName :: "world \<Rightarrow> string set \<Rightarrow> string \<Rightarrow> js_error option" where
  "validateOAuthScopeForFunctionName w claims functionName =
     authorize claims (scopeRequiredByFunctionName w functionName)"

text \<open>
  Modelled from the spec: the guard of a dispatched action, over the static table from
  command/action pairs to scopes.
\<close>

definition validateOAuthScopeForAction :: "world \<Rightarrow> string set \<Rightarrow> Action \<Rightarrow> js_error option" where
  "validateOAuthScopeForAction w claims act =
     authorize claims (scopeRequiredByAction w (command act) (action act))"

section \<open>The Notion class\<close>

text \<open>
  \<open>localModeSubject\<close> is the current value of the \<open>BehaviorSubject\<close> behind local mode and
  \<open>localModeEmitted\<close> the values pushed into it with \<open>next\<close>; \<open>console\<close> holds the lines
  written with \<open>console.warn\<close>.
\<close>

record Notion =
  options :: IOptions
  api :: ApiClient
  localModeSubject :: bool
  localModeEmitted :: "bool list"
  console :: "string list"

text \<open>
  How a call ends for its caller: a synchronous exception (\<open>Throws\<close>), a rejected promise,
  a promise resolved by the method itself, an observable that errors (\<open>throwError\<close>), an
  observable that emits a value the instance holds, the promise or observable of a
  collaborator's call handed on (\<open>Delegates\<close>), or a plain return.
\<close>

datatype outcome =
    Throws js_error
  | Rejects js_error
  | Resolves js_value
  | StreamErrors js_error
  | Emits js_value
  | Delegates call
  | Returns js_value

definition Notion_new :: "NotionOptions \<Rightarrow> Notion" where
  "Notion_new g =
     (let opts = merge_options defaultOptions g
      in \<lparr> options = opts, api = ApiClient_new opts,
           localModeSubject = False, localModeEmitted = [], console = [] \<rparr>)"

text \<open>\<open>api.didSelectDevice()\<close>.\<close>

definition didSelectDevice :: "ApiClient \<Rightarrow> bool" where
  "didSelectDevice a = (selectedDevice a \<noteq> None)"

text \<open>A call on the API client whose promise or observable is handed to the caller.\<close>

definition via_api :: "call \<Rightarrow> Notion \<Rightarrow> outcome \<times> Notion" where
  "via_api c n = (Delegates c, n\<lparr>api := record_call c (api n)\<rparr>)"

text \<open>
  The guard in front of a method that returns a promise: \<open>Promise.reject(OAuthError)\<close>,
  else the call on the API client.
\<close>

definition guarded_promise :: "world \<Rightarrow> string \<Rightarrow> call \<Rightarrow> Notion \<Rightarrow> outcome \<times> Notion" where
  "guarded_promise w functionName c n =
     (case validateOAuthScopeForFunctionName w (userClaims (api n)) functionName of
        Some OAuthError \<Rightarrow> (Rejects OAuthError, n)
      | None \<Rightarrow> via_api c n)"

text \<open>The guard in front of a method that returns an observable: \<open>throwError(OAuthError)\<close>.\<close>

definition guarded_stream :: "world \<Rightarrow> string \<Rightarrow> call \<Rightarrow> Notion \<Rightarrow> outcome \<times> Notion" where
  "guarded_stream w functionName c n =
     (case validateOAuthScopeForFunctionName w (userClaims (api n)) functionName of
        Some OAuthError \<Rightarrow> (StreamErrors OAuthError, n)
      | None \<Rightarrow> via_api c n)"

definition login :: "world \<Rightarrow> js_value \<Rightarrow> Notion \<Rightarrow> outcome \<times> Notion" where
  "login w credentials n =
     (case api_login w credentials (api n) of
        (Inl e, a) \<Rightarrow> (Rejects e, n\<lparr>api := a\<rparr>)
      | (Inr u, a) \<Rightarrow> (Resolves u, n\<lparr>api := a\<rparr>))"

definition addDevice :: "world \<Rightarrow> Notion \<Rightarrow> outcome \<times> Notion" where
  "addDevice w n = guarded_promise w ''addDevice'' (Api ''addDevice'') n"

definition removeDevice :: "world \<Rightarrow> Notion \<Rightarrow> outcome \<times> Notion" where
  "removeDevice w n = guarded_promise w ''removeDevice'' (Api ''removeDevice'') n"

definition transferDevice :: "world \<Rightarrow> Notion \<Rightarrow> outcome \<times> Notion" where
  "transferDevice w n = guarded_promise w ''transferDevice'' (Api ''transferDevice'') n"

definition onUserDevicesChange :: "world \<Rightarrow> Notion \<Rightarrow> outcome \<times> Notion" where
  "onUserDevicesChange w n = guarded_stream w ''onUserDevicesChange'' (Api ''onUserDevicesChange'') n"

definition selectDevice :: "world \<Rightarrow> Notion \<Rightarrow> outcome \<times> Notion" where
  "selectDevice w n = guarded_promise w ''selectDevice'' (Api ''selectDevice'') n"

definition getSelectedDevice :: "world \<Rightarrow> Notion \<Rightarrow> outcome \<times> Notion" where
  "getSelectedDevice w n = guarded_promise w ''getSelectedDevice'' (Api ''getSelectedDevice'') n"

definition getInfo :: "world \<Rightarrow> Notion \<Rightarrow> outcome \<times> Notion" where
  "getInfo w n =
     (if \<not> didSelectDevice (api n) then (Rejects mustSelectDevice, n)
      else case validateOAuthScopeForFunctionName w (userClaims (api n)) ''getInfo'' of
             Some OAuthError \<Rightarrow> (Rejects OAuthError, n)
           | None \<Rightarrow> (Delegates Firebase_getInfo, n\<lparr>api := api_getInfo (api n)\<rparr>))"

definition isLocalMode :: "Notion \<Rightarrow> outcome \<times> Notion" where
  "isLocalMode n = (Emits (JBool (localModeSubject n)), n)"

definition onDeviceChange :: "world \<Rightarrow> Notion \<Rightarrow> outcome \<times> Notion" where
  "onDeviceChange w n = guarded_stream w ''onDeviceChange'' (Api ''onDeviceChange'') n"

text \<open>\<open>this._localModeSubject.next(v)\<close>.\<close>

definition localMode_next :: "bool \<Rightarrow> Notion \<Rightarrow> Notion" where
  "localMode_next v n = n\<lparr>localModeSubject := v, localModeEmitted := localModeEmitted n @ [v]\<rparr>"

definition localModeUnsupported :: js_error where
  "localModeUnsupported =
     Error (prefix @ ''Your device's OS does not support localMode. Try updating to the latest OS.'')"

text \<open>
  \<open>enableLocalMode\<close>: the pair \<open>[localModeSupported, error]\<close> of the source is
  \<open>[false, new Error(...)]\<close> for a falsy socket URL, \<open>[true, null]\<close> for a truthy one and
  \<open>[false, error]\<close> when the read rejects; each case is followed to its return.
\<close>

definition enableLocalMode :: "world \<Rightarrow> js_value \<Rightarrow> Notion \<Rightarrow> outcome \<times> Notion" where
  "enableLocalMode w shouldEnable n =
     (case shouldEnable of
        JBool b \<Rightarrow>
          if \<not> b then (Resolves (JBool b), localMode_next b n)
          else
            (let n1 = n\<lparr>api := record_call (Api_onceNamespace ''context/socketUrl'') (api n)\<rparr>
             in case once_socketUrl w of
                  Inr socketUrl \<Rightarrow>
                    if \<not> truthy socketUrl then (Rejects localModeUnsupported, n1)
                    else (Resolves (JBool b), localMode_next b n1)
                | Inl e \<Rightarrow> (Rejects e, n1))
      | _ \<Rightarrow> (Rejects (TypeError ''enableLocalMode can only accept a boolean''), n))"

definition disconnect :: "Notion \<Rightarrow> outcome \<times> Notion" where
  "disconnect n = (Delegates Firebase_disconnect, n\<lparr>api := api_disconnect (api n)\<rparr>)"

definition socketUrl :: "Notion \<Rightarrow> outcome \<times> Notion" where
  "socketUrl n =
     (case onDeviceSocketUrl (options n) of
        Some url \<Rightarrow>
          if url \<noteq> [] then (Emits (JStr url), n)
          else via_api (Api_observeNamespace ''context/socketUrl'') n
      | None \<Rightarrow> via_api (Api_observeNamespace ''context/socketUrl'') n)"

definition dispatchAction :: "world \<Rightarrow> Action \<Rightarrow> Notion \<Rightarrow> outcome \<times> Notion" where
  "dispatchAction w act n =
     (if \<not> didSelectDevice (api n) then (Rejects mustSelectDevice, n)
      else case validateOAuthScopeForAction w (userClaims (api n)) act of
             Some OAuthError \<Rightarrow> (Rejects OAuthError, n)
           | None \<Rightarrow> (Delegates (Firebase_dispatchAction act), n\<lparr>api := actions_dispatch act (api n)\<rparr>))"

text \<open>
  \<open>addMarker\<close> is not an \<open>async\<close> function: its two \<open>throw\<close> statements, and a throwing
  read of \<open>this.api.timestamp\<close>, leave it as exceptions.
\<close>

definition addMarker :: "world \<Rightarrow> string option \<Rightarrow> Notion \<Rightarrow> outcome \<times> Notion" where
  "addMarker w label n =
     (if \<not> didSelectDevice (api n) then (Throws mustSelectDevice, n)
      else case label of
        None \<Rightarrow> (Throws (Error (prefix @ ''A label is required for addMarker'')), n)
      | Some l \<Rightarrow>
          if l = [] then (Throws (Error (prefix @ ''A label is required for addMarker'')), n)
          else (case timestamp w (api n) of
                  Inl e \<Rightarrow> (Throws e, n)
                | Inr t \<Rightarrow>
                    dispatchAction w
                      \<lparr> command = ''marker'', action = ''add'',
                        message = [(''label'', JStr l), (''timestamp'', JNum t)],
                        responseRequired = False, responseTimeout = None \<rparr> n))"

text \<open>
  The loop of \<open>haptics\<close> over the keys of \<open>effects\<close>, given in the order \<open>for..in\<close> visits
  them: an unknown motor location or more than \<open>maxItems = 7\<close> effects for one motor
  rejects; otherwise the motor's entry of the request is overwritten.
\<close>

fun set_motor :: "string \<Rightarrow> string list \<Rightarrow> (string \<times> string list) list \<Rightarrow> (string \<times> string list) list" where
  "set_motor k v [] = [(k, v)]"
| "set_motor k v ((k', v') # kvs) = (if k = k' then (k, v) # kvs else (k', v') # set_motor k v kvs)"

fun haptics_loop :: "string \<Rightarrow> (string \<times> string list) list \<Rightarrow> (string \<times> string list) list
    \<Rightarrow> js_error + (string \<times> string list) list" where
  "haptics_loop mv [] newPlatformHapticRequest = Inr newPlatformHapticRequest"
| "haptics_loop mv ((k, singleMotorEffects) # rest) newPlatformHapticRequest =
     (if k \<notin> set (map fst newPlatformHapticRequest) then Inl (locationNotFound k mv)
      else if length singleMotorEffects > 7 then Inl (exceededMaxItems 7)
      else haptics_loop mv rest (set_motor k singleMotorEffects newPlatformHapticRequest))"

text \<open>
  \<open>haptics\<close> awaits \<open>this.getSelectedDevice()\<close>, which is guarded itself and resolves with
  the selected device; reading \<open>modelVersion\<close> of no device is a \<open>TypeError\<close>, which an
  \<open>async\<close> function turns into a rejection.
\<close>

definition haptics :: "world \<Rightarrow> (string \<times> string list) list \<Rightarrow> Notion \<Rightarrow> outcome \<times> Notion" where
  "haptics w effects n =
     (if \<not> didSelectDevice (api n) then (Rejects mustSelectDevice, n)
      else case getSelectedDevice w n of
        (Delegates c, n1) \<Rightarrow>
          (case selectedDevice (api n1) of
             None \<Rightarrow> (Rejects (TypeError ''Cannot read properties of undefined (reading 'modelVersion')''), n1)
           | Some d \<Rightarrow>
               if \<not> supportsHaptics w (modelVersion d)
               then (Rejects (metricNotSupportedByModel ''haptics'' (modelVersion d)), n1)
               else (case haptics_loop (modelVersion d) (for_in effects)
                            (getPlatformHapticMotors w (modelVersion d)) of
                       Inl e \<Rightarrow> (Rejects e, n1)
                     | Inr newPlatformHapticRequest \<Rightarrow>
                         dispatchAction w
                           \<lparr> command = ''haptics'', action = ''queue'',
                             message = [(''effects'',
                                JObj (map (\<lambda>(k, es). (k, JArr (map JStr es))) newPlatformHapticRequest))],
                             responseRequired = True, responseTimeout = Some 1000 \<rparr> n1))
      | (failed, n1) \<Rightarrow> (failed, n1))"

definition getHapticEffects :: "world \<Rightarrow> Notion \<Rightarrow> outcome \<times> Notion" where
  "getHapticEffects w n = (Returns (hapticEffects w), n)"

text \<open>
  \<open>accelerometer\<close>: what the returned observable does once subscribed. The promise of
  \<open>this.getSelectedDevice()\<close> is turned into the stream; a device without a model version
  counts as \<open>MODEL_VERSION_1\<close>.
\<close>

definition accelerometer :: "world \<Rightarrow> Notion \<Rightarrow> outcome \<times> Notion" where
  "accelerometer w n =
     (case validateOAuthScopeForFunctionName w (userClaims (api n)) ''accelerometer'' of
        Some OAuthError \<Rightarrow> (StreamErrors OAuthError, n)
      | None \<Rightarrow>
          (case getSelectedDevice w n of
             (Delegates c, n1) \<Rightarrow>
               (let mv = (case selectedDevice (api n1) of
                            None \<Rightarrow> MODEL_VERSION_1 w
                          | Some d \<Rightarrow> if modelVersion d \<noteq> [] then modelVersion d else MODEL_VERSION_1 w)
                in if \<not> supportsAccel w mv
                   then (StreamErrors (metricNotSupportedByModel ''accelerometer'' mv), n1)
                   else via_api (GetMetric \<lparr> metric = ''accelerometer'',
                                   labels = getLabels w ''accelerometer'', atomic = True \<rparr>) n1)
           | (Rejects e, n1) \<Rightarrow> (StreamErrors e, n1)
           | (other, n1) \<Rightarrow> (other, n1)))"

text \<open>\<open>label ? [label, ...otherLabels] : []\<close>.\<close>

definition label_list :: "string option \<Rightarrow> string list \<Rightarrow> string list" where
  "label_list label otherLabels =
     (case label of None \<Rightarrow> [] | Some l \<Rightarrow> if l \<noteq> [] then l # otherLabels else [])"

definition brainwaves :: "world \<Rightarrow> string option \<Rightarrow> string list \<Rightarrow> Notion \<Rightarrow> outcome \<times> Notion" where
  "brainwaves w label otherLabels n =
     guarded_stream w ''brainwaves''
       (GetMetric \<lparr> metric = ''brainwaves'', labels = label_list label otherLabels, atomic = False \<rparr>) n"

definition calm :: "world \<Rightarrow> Notion \<Rightarrow> outcome \<times> Notion" where
  "calm w n =
     guarded_stream w ''calm''
       (GetMetric \<lparr> metric = ''awareness'', labels = [''calm''], atomic = False \<rparr>) n"

definition signalQuality :: "world \<Rightarrow> Notion \<Rightarrow> outcome \<times> Notion" where
  "signalQuality w n =
     guarded_stream w ''signalQuality''
       (GetMetric \<lparr> metric = ''signalQuality'', labels = getLabels w ''signalQuality'', atomic = True \<rparr>) n"

definition settings :: "world \<Rightarrow> Notion \<Rightarrow> outcome \<times> Notion" where
  "settings w n = guarded_stream w ''settings'' (Api_observeNamespace ''settings'') n"

definition focus :: "world \<Rightarrow> Notion \<Rightarrow> outcome \<times> Notion" where
  "focus w n =
     guarded_stream w ''focus''
       (GetMetric \<lparr> metric = ''awareness'', labels = [''focus''], atomic = False \<rparr>) n"

definition kinesis :: "world \<Rightarrow> string option \<Rightarrow> string list \<Rightarrow> Notion \<Rightarrow> outcome \<times> Notion" where
  "kinesis w label otherLabels n =
     guarded_stream w ''kinesis''
       (GetMetric \<lparr> metric = ''kinesis'', labels = label_list label otherLabels, atomic = False \<rparr>) n"

definition predictions :: "world \<Rightarrow> string option \<Rightarrow> string list \<Rightarrow> Notion \<Rightarrow> outcome \<times> Notion" where
  "predictions w label otherLabels n =
     guarded_stream w ''predictions''
       (GetMetric \<lparr> metric = ''predictions'', labels = label_list label otherLabels, atomic = False \<rparr>) n"

definition status :: "world \<Rightarrow> Notion \<Rightarrow> outcome \<times> Notion" where
  "status w n = guarded_stream w ''status'' (Api ''status'') n"

definition changeSettings :: "world \<Rightarrow> Notion \<Rightarrow> outcome \<times> Notion" where
  "changeSettings w n =
     (if \<not> didSelectDevice (api n) then (Rejects mustSelectDevice, n)
      else guarded_promise w ''changeSettings'' (Api ''changeSettings'') n)"

subsection \<open>training\<close>

text \<open>
  The three methods of \<open>training\<close> are plain functions that return nothing: they throw
  when no device is selected and otherwise dispatch without the guard and without
  returning the promise.
\<close>

definition training_record :: "world \<Rightarrow> (string \<times> js_value) list \<Rightarrow> Notion \<Rightarrow> outcome \<times> Notion" where
  "training_record w training n =
     (if \<not> didSelectDevice (api n) then (Throws mustSelectDevice, n)
      else
        (let userId = (case user (api n) of Some uid \<Rightarrow> JStr uid | None \<Rightarrow> JNull) in
         case timestamp w (api n) of
           Inl e \<Rightarrow> (Throws e, n)
         | Inr t \<Rightarrow>
             (Returns JUndefined,
              n\<lparr>api := actions_dispatch
                   \<lparr> command = ''training'', action = ''record'',
                     message =
                       obj_spread
                         (obj_spread [(''fit'', JBool False), (''baseline'', JBool False),
                                      (''timestamp'', JNum t)] (for_in training))
                         [(''userId'', userId)],
                     responseRequired = False, responseTimeout = None \<rparr> (api n)\<rparr>)))"

definition training_stop :: "(string \<times> js_value) list \<Rightarrow> Notion \<Rightarrow> outcome \<times> Notion" where
  "training_stop training n =
     (if \<not> didSelectDevice (api n) then (Throws mustSelectDevice, n)
      else (Returns JUndefined,
            n\<lparr>api := actions_dispatch
                 \<lparr> command = ''training'', action = ''stop'',
                   message = obj_spread [] (for_in training),
                   responseRequired = False, responseTimeout = None \<rparr> (api n)\<rparr>))"

definition training_stopAll :: "Notion \<Rightarrow> outcome \<times> Notion" where
  "training_stopAll n =
     (if \<not> didSelectDevice (api n) then (Throws mustSelectDevice, n)
      else (Returns JUndefined,
            n\<lparr>api := actions_dispatch
                 \<lparr> command = ''training'', action = ''stopAll'', message = [],
                   responseRequired = False, responseTimeout = None \<rparr> (api n)\<rparr>))"

subsection \<open>Clock offset, OAuth, skills\<close>

definition getTimesyncOffset :: "Notion \<Rightarrow> outcome \<times> Notion" where
  "getTimesyncOffset n =
     (let n1 = (if \<not> timesync (options n)
                then n\<lparr>console := console n @ [''getTimesyncOffset() requires options.timesync to be true.'']\<rparr>
                else n)
      in if timesync (options n) then via_api (Api ''getTimesyncOffset'') n1
         else (Returns (JNum 0), n1))"

definition createOAuthURL :: "world \<Rightarrow> Notion \<Rightarrow> outcome \<times> Notion" where
  "createOAuthURL w n =
     (if \<not> isNode w
      then (Rejects (Error (prefix @ ''the createOAuthURL method must be used on the server side (node.js) for security reasons.'')), n)
      else via_api (Https ''createOAuthURL'') n)"

definition getOAuthToken :: "world \<Rightarrow> Notion \<Rightarrow> outcome \<times> Notion" where
  "getOAuthToken w n =
     (if \<not> isNode w
      then (Rejects (Error (prefix @ ''the getOAuthToken method must be used on the server side (node.js) for security reasons.'')), n)
      else via_api (Https ''getOAuthToken'') n)"

definition skill :: "world \<Rightarrow> string \<Rightarrow> Notion \<Rightarrow> outcome \<times> Notion" where
  "skill w bundleId n =
     (if \<not> didSelectDevice (api n) then (Rejects mustSelectDevice, n)
      else
        (let n1 = n\<lparr>api := skills_get bundleId (api n)\<rparr> in
         case firebase_getSkill w of
           Inl e \<Rightarrow> (Rejects e, n1)
         | Inr skillData \<Rightarrow>
             if skillData = JNull
             then (Rejects (Error (prefix @ ''Access denied for: '' @ bundleId
                                   @ ''. Make sure the skill is installed.'')), n1)
             else (Resolves skillData, n1)))"

text \<open>
  Subscribing to the observable of \<open>skillInstance.metric(label)\<close>: \<open>metrics.subscribe\<close>,
  then \<open>metrics.on\<close> with the subscription created. \<open>skillId\<close> is \<open>skillData.id\<close>.
\<close>

definition skill_metricName :: "string \<Rightarrow> string \<Rightarrow> string" where
  "skill_metricName skillId label = ''skill~'' @ skillId @ ''~'' @ label"

definition skill_metric_subscribe :: "world \<Rightarrow> string \<Rightarrow> string \<Rightarrow> Notion \<Rightarrow> Subscription \<times> Notion" where
  "skill_metric_subscribe w skillId label n =
     (let (subscription, a1) =
            metrics_subscribe w
              \<lparr> metric = skill_metricName skillId label, labels = [label], atomic = True \<rparr> (api n)
      in (subscription, n\<lparr>api := metrics_on w subscription a1\<rparr>))"

text \<open>Unsubscribing from it: \<open>metrics.unsubscribe(subscription, listener)\<close>.\<close>

definition skill_metric_unsubscribe :: "Subscription \<Rightarrow> Notion \<Rightarrow> Notion" where
  "skill_metric_unsubscribe subscription n = n\<lparr>api := metrics_unsubscribe subscription (api n)\<rparr>"

text \<open>Its \<open>next\<close> property: \<open>metrics.next(metricName, {[label]: metricValue})\<close>.\<close>

definition skill_metric_next :: "string \<Rightarrow> string \<Rightarrow> js_value \<Rightarrow> Notion \<Rightarrow> Notion" where
  "skill_metric_next skillId label metricValue n =
     n\<lparr>api := metrics_next (skill_metricName skillId label) (JObj [(label, metricValue)]) (api n)\<rparr>"

section \<open>Operations on an instance\<close>

text \<open>
  One constructor for each public method of \<open>Notion\<close> (with \<open>socketUrl\<close> and
  \<open>dispatchAction\<close>, which are not public), for the use of a skill's metric, and for the
  methods of \<open>ApiClient\<close> that \<open>Notion\<close> does not call itself. \<open>Backend\<close> is a change the
  cloud pushes into what \<open>api.didSelectDevice()\<close>, \<open>api.userClaims\<close> and \<open>api.user\<close> read;
  \<open>Probe\<close> is a probe of the clock synchronisation that completed or timed out.
\<close>

datatype op =
    Login js_value
  | Logout
  | GetApp
  | OnAuthStateChanged
  | AddDevice
  | RemoveDevice
  | TransferDevice
  | OnUserDevicesChange
  | OnUserClaimsChange
  | GetDevices
  | SelectDevice
  | GetSelectedDevice
  | GetInfo
  | IsLocalMode
  | OnDeviceChange
  | EnableLocalMode js_value
  | Disconnect
  | SocketUrl
  | DispatchAction Action
  | AddMarker "string option"
  | Haptics "(string \<times> string list) list"
  | GetHapticEffects
  | Accelerometer
  | Brainwaves "string option" "string list"
  | Calm
  | SignalQuality
  | Settings
  | Focus
  | Kinesis "string option" "string list"
  | Predictions "string option" "string list"
  | Status
  | ChangeSettings
  | TrainingRecord "(string \<times> js_value) list"
  | TrainingStop "(string \<times> js_value) list"
  | TrainingStopAll
  | GoOffline
  | GoOnline
  | CreateAccount
  | DeleteAccount
  | CreateCustomToken
  | GetTimesyncOffset
  | CreateOAuthURL
  | GetOAuthToken
  | RemoveOAuthAccess
  | Skill string
  | SkillMetricSubscribe string string
  | SkillMetricUnsubscribe Subscription
  | SkillMetricNext string string js_value
  | OnUserExperiments
  | DeleteUserExperiment
  | OnStatus
  | OffStatus
  | MetricsSubscribe MetricSubscriptionRequest
  | MetricsOn Subscription
  | MetricsUnsubscribe Subscription
  | MetricsNext string js_value
  | Backend "DeviceInfo option" "string list" "string option"
  | Probe "probe option"

text \<open>A method that returns nothing after a call on the API client.\<close>

definition void_api :: "call \<Rightarrow> Notion \<Rightarrow> outcome \<times> Notion" where
  "void_api c n = (Returns JUndefined, n\<lparr>api := record_call c (api n)\<rparr>)"

definition backend :: "DeviceInfo option \<Rightarrow> string list \<Rightarrow> string option \<Rightarrow> Notion \<Rightarrow> Notion" where
  "backend d claims u n = n\<lparr>api := (api n)\<lparr>selectedDevice := d, userClaims := set claims, user := u\<rparr>\<rparr>"

definition probe_done :: "probe option \<Rightarrow> Notion \<Rightarrow> Notion" where
  "probe_done r n = n\<lparr>api := (api n)\<lparr>api_timesync := map_option (on_probe r) (api_timesync (api n))\<rparr>\<rparr>"

primrec step :: "world \<Rightarrow> op \<Rightarrow> Notion \<Rightarrow> outcome \<times> Notion" where
  "step w (Login credentials) n = login w credentials n"
| "step w Logout n = via_api (Api ''logout'') n"
| "step w GetApp n = via_api (Api ''__getApp'') n"
| "step w OnAuthStateChanged n = via_api (Api ''onAuthStateChanged'') n"
| "step w AddDevice n = addDevice w n"
| "step w RemoveDevice n = removeDevice w n"
| "step w TransferDevice n = transferDevice w n"
| "step w OnUserDevicesChange n = onUserDevicesChange w n"
| "step w OnUserClaimsChange n = via_api (Api ''onUserClaimsChange'') n"
| "step w GetDevices n = via_api (Api ''getDevices'') n"
| "step w SelectDevice n = selectDevice w n"
| "step w GetSelectedDevice n = getSelectedDevice w n"
| "step w GetInfo n = getInfo w n"
| "step w IsLocalMode n = isLocalMode n"
| "step w OnDeviceChange n = onDeviceChange w n"
| "step w (EnableLocalMode shouldEnable) n = enableLocalMode w shouldEnable n"
| "step w Disconnect n = disconnect n"
| "step w SocketUrl n = socketUrl n"
| "step w (DispatchAction act) n = dispatchAction w act n"
| "step w (AddMarker label) n = addMarker w label n"
| "step w (Haptics effects) n = haptics w effects n"
| "step w GetHapticEffects n = getHapticEffects w n"
| "step w Accelerometer n = accelerometer w n"
| "step w (Brainwaves label otherLabels) n = brainwaves w label otherLabels n"
| "step w Calm n = calm w n"
| "step w SignalQuality n = signalQuality w n"
| "step w Settings n = settings w n"
| "step w Focus n = focus w n"
| "step w (Kinesis label otherLabels) n = kinesis w label otherLabels n"
| "step w (Predictions label otherLabels) n = predictions w label otherLabels n"
| "step w Status n = status w n"
| "step w ChangeSettings n = changeSettings w n"
| "step w (TrainingRecord training) n = training_record w training n"
| "step w (TrainingStop training) n = training_stop training n"
| "step w TrainingStopAll n = training_stopAll n"
| "step w GoOffline n = void_api (Api ''goOffline'') n"
| "step w GoOnline n = void_api (Api ''goOnline'') n"
| "step w CreateAccount n = via_api (Api ''createAccount'') n"
| "step w DeleteAccount n = via_api (Api ''deleteAccount'') n"
| "step w CreateCustomToken n = via_api (Api ''createCustomToken'') n"
| "step w GetTimesyncOffset n = getTimesyncOffset n"
| "step w CreateOAuthURL n = createOAuthURL w n"
| "step w GetOAuthToken n = getOAuthToken w n"
| "step w RemoveOAuthAccess n = via_api (Api ''removeOAuthAccess'') n"
| "step w (Skill bundleId) n = skill w bundleId n"
| "step w (SkillMetricSubscribe skillId label) n =
     (Returns JUndefined, snd (skill_metric_subscribe w skillId label n))"
| "step w (SkillMetricUnsubscribe subscription) n =
     (Returns JUndefined, skill_metric_unsubscribe subscription n)"
| "step w (SkillMetricNext skillId label metricValue) n =
     (Returns JUndefined, skill_metric_next skillId label metricValue n)"
| "step w OnUserExperiments n = via_api (Api ''onUserExperiments'') n"
| "step w DeleteUserExperiment n = via_api (Api ''deleteUserExperiment'') n"
| "step w OnStatus n = (Returns JUndefined, n\<lparr>api := onStatus (api n)\<rparr>)"
| "step w OffStatus n = (Returns JUndefined, n\<lparr>api := offStatus (api n)\<rparr>)"
| "step w (MetricsSubscribe r) n =
     (Returns JUndefined, n\<lparr>api := snd (metrics_subscribe w r (api n))\<rparr>)"
| "step w (MetricsOn subscription) n =
     (Returns JUndefined, n\<lparr>api := metrics_on w subscription (api n)\<rparr>)"
| "step w (MetricsUnsubscribe subscription) n =
     (Returns JUndefined, n\<lparr>api := metrics_unsubscribe subscription (api n)\<rparr>)"
| "step w (MetricsNext metricName metricValue) n =
     (Returns JUndefined, n\<lparr>api := metrics_next metricName metricValue (api n)\<rparr>)"
| "step w (Backend d claims u) n = (Returns JUndefined, backend d claims u n)"
| "step w (Probe r) n = (Returns JUndefined, probe_done r n)"

text \<open>A history of an instance: operations in order, each in the world it ran in.\<close>

fun run :: "(world \<times> op) list \<Rightarrow> Notion \<Rightarrow> Notion" where
  "run [] n = n"
| "run ((w, x) # xs) n = run xs (snd (step w x n))"

section \<open>Notions used to state the properties\<close>

text \<open>The methods whose failures are \<open>throw\<close> statements in a function that is not \<open>async\<close>.\<close>

fun throwing_method :: "op \<Rightarrow> bool" where
  "throwing_method (AddMarker label) = True"
| "throwing_method (TrainingRecord training) = True"
| "throwing_method (TrainingStop training) = True"
| "throwing_method TrainingStopAll = True"
| "throwing_method x = False"

text \<open>
  The scopes a method asks the guard for, in the order of its calls of
  \<open>validateOAuthScopeForFunctionName\<close> and \<open>validateOAuthScopeForAction\<close>: eighteen methods
  call the guard once; \<open>accelerometer\<close> calls it itself and again through
  \<open>this.getSelectedDevice()\<close>; \<open>haptics\<close> calls it through \<open>this.getSelectedDevice()\<close> and
  through \<open>this.dispatchAction\<close>; \<open>addMarker\<close> through \<open>this.dispatchAction\<close>. The methods
  of \<open>training\<close> dispatch through \<open>this.api.actions.dispatch\<close> and never call the guard.
\<close>

fun required_scopes :: "world \<Rightarrow> op \<Rightarrow> string list" where
  "required_scopes w AddDevice = [scopeRequiredByFunctionName w ''addDevice'']"
| "required_scopes w RemoveDevice = [scopeRequiredByFunctionName w ''removeDevice'']"
| "required_scopes w TransferDevice = [scopeRequiredByFunctionName w ''transferDevice'']"
| "required_scopes w OnUserDevicesChange = [scopeRequiredByFunctionName w ''onUserDevicesChange'']"
| "required_scopes w SelectDevice = [scopeRequiredByFunctionName w ''selectDevice'']"
| "required_scopes w GetSelectedDevice = [scopeRequiredByFunctionName w ''getSelectedDevice'']"
| "required_scopes w GetInfo = [scopeRequiredByFunctionName w ''getInfo'']"
| "required_scopes w OnDeviceChange = [scopeRequiredByFunctionName w ''onDeviceChange'']"
| "required_scopes w (DispatchAction act) = [scopeRequiredByAction w (command act) (action act)]"
| "required_scopes w (AddMarker label) = [scopeRequiredByAction w ''marker'' ''add'']"
| "required_scopes w (Haptics effects) =
     [scopeRequiredByFunctionName w ''getSelectedDevice'', scopeRequiredByAction w ''haptics'' ''queue'']"
| "required_scopes w Accelerometer =
     [scopeRequiredByFunctionName w ''accelerometer'', scopeRequiredByFunctionName w ''getSelectedDevice'']"
| "required_scopes w (Brainwaves label otherLabels) = [scopeRequiredByFunctionName w ''brainwaves'']"
| "required_scopes w Calm = [scopeRequiredByFunctionName w ''calm'']"
| "required_scopes w SignalQuality = [scopeRequiredByFunctionName w ''signalQuality'']"
| "required_scopes w Settings = [scopeRequiredByFunctionName w ''settings'']"
| "required_scopes w Focus = [scopeRequiredByFunctionName w ''focus'']"
| "required_scopes w (Kinesis label otherLabels) = [scopeRequiredByFunctionName w ''kinesis'']"
| "required_scopes w (Predictions label otherLabels) = [scopeRequiredByFunctionName w ''predictions'']"
| "required_scopes w Status = [scopeRequiredByFunctionName w ''status'']"
| "required_scopes w ChangeSettings = [scopeRequiredByFunctionName w ''changeSettings'']"
| "required_scopes w x = []"

text \<open>The methods that call the guard once and hand on one call when it lets them pass.\<close>

fun single_guard :: "op \<Rightarrow> bool" where
  "single_guard (AddMarker label) = False"
| "single_guard (Haptics effects) = False"
| "single_guard Accelerometer = False"
| "single_guard x = True"

text \<open>The guarded methods that test \<open>api.didSelectDevice()\<close> before any guard.\<close>

fun needs_device :: "op \<Rightarrow> bool" where
  "needs_device GetInfo = True"
| "needs_device (DispatchAction act) = True"
| "needs_device (AddMarker label) = True"
| "needs_device (Haptics effects) = True"
| "needs_device ChangeSettings = True"
| "needs_device x = False"

text \<open>The methods that return an \<open>Observable\<close>; their failures are \<open>throwError(...)\<close>.\<close>

fun returns_stream :: "op \<Rightarrow> bool" where
  "returns_stream OnUserDevicesChange = True"
| "returns_stream OnDeviceChange = True"
| "returns_stream Accelerometer = True"
| "returns_stream (Brainwaves label otherLabels) = True"
| "returns_stream Calm = True"
| "returns_stream SignalQuality = True"
| "returns_stream Settings = True"
| "returns_stream Focus = True"
| "returns_stream (Kinesis label otherLabels) = True"
| "returns_stream (Predictions label otherLabels) = True"
| "returns_stream Status = True"
| "returns_stream x = False"

text \<open>An outcome that is a failure: an exception, a rejected promise, an errored stream.\<close>

fun failed :: "outcome \<Rightarrow> bool" where
  "failed (Throws e) = True"
| "failed (Rejects e) = True"
| "failed (StreamErrors e) = True"
| "failed other = False"

text \<open>
  The calls that reach a transport: those on the cloud client and on the on-device socket,
  and \<open>getMetric\<close>. A call on a method of the API client that the sources do not define is
  counted as one as well, but for \<open>api.getSelectedDevice()\<close>, which \<open>haptics\<close> makes under
  the guard of \<open>getSelectedDevice\<close> before the guard of its action is asked.
\<close>

definition no_transport_call :: "Notion \<Rightarrow> Notion \<Rightarrow> bool" where
  "no_transport_call n n' \<longleftrightarrow>
     n' = n \<or> n' = n\<lparr>api := record_call (Api ''getSelectedDevice'') (api n)\<rparr>"

text \<open>
  The failure a method finds by itself, read off its \<open>if\<close> statements in order: no device
  selected, a denying guard, an argument or a platform check, a collaborator's promise
  that it awaits and that rejects. \<open>None\<close> when it finds none. \<open>addMarker\<close> is not in the
  table.
\<close>

fun detected_failure :: "world \<Rightarrow> Notion \<Rightarrow> op \<Rightarrow> js_error option" where
  "detected_failure w n (Login credentials) =
     (case firebase_login w of Inl e \<Rightarrow> Some e | Inr u \<Rightarrow> None)"
| "detected_failure w n GetInfo =
     (if \<not> didSelectDevice (api n) then Some mustSelectDevice
      else authorize (userClaims (api n)) (scopeRequiredByFunctionName w ''getInfo''))"
| "detected_failure w n ChangeSettings =
     (if \<not> didSelectDevice (api n) then Some mustSelectDevice
      else authorize (userClaims (api n)) (scopeRequiredByFunctionName w ''changeSettings''))"
| "detected_failure w n (DispatchAction act) =
     (if \<not> didSelectDevice (api n) then Some mustSelectDevice
      else authorize (userClaims (api n)) (scopeRequiredByAction w (command act) (action act)))"
| "detected_failure w n (EnableLocalMode shouldEnable) =
     (case shouldEnable of
        JBool b \<Rightarrow>
          if \<not> b then None
          else (case once_socketUrl w of
                  Inl e \<Rightarrow> Some e
                | Inr url \<Rightarrow> if truthy url then None else Some localModeUnsupported)
      | _ \<Rightarrow> Some (TypeError ''enableLocalMode can only accept a boolean''))"
| "detected_failure w n (Haptics effects) =
     (if \<not> didSelectDevice (api n) then Some mustSelectDevice
      else case authorize (userClaims (api n)) (scopeRequiredByFunctionName w ''getSelectedDevice'') of
        Some e \<Rightarrow> Some e
      | None \<Rightarrow>
          (case selectedDevice (api n) of
             None \<Rightarrow> Some (TypeError ''Cannot read properties of undefined (reading 'modelVersion')'')
           | Some d \<Rightarrow>
               if \<not> supportsHaptics w (modelVersion d)
               then Some (metricNotSupportedByModel ''haptics'' (modelVersion d))
               else (case haptics_loop (modelVersion d) (for_in effects)
                            (getPlatformHapticMotors w (modelVersion d)) of
                       Inl e \<Rightarrow> Some e
                     | Inr req \<Rightarrow>
                         authorize (userClaims (api n)) (scopeRequiredByAction w ''haptics'' ''queue''))))"
| "detected_failure w n Accelerometer =
     (case authorize (userClaims (api n)) (scopeRequiredByFunctionName w ''accelerometer'') of
        Some e \<Rightarrow> Some e
      | None \<Rightarrow>
          (case authorize (userClaims (api n)) (scopeRequiredByFunctionName w ''getSelectedDevice'') of
             Some e \<Rightarrow> Some e
           | None \<Rightarrow>
               (let mv = (case selectedDevice (api n) of
                            None \<Rightarrow> MODEL_VERSION_1 w
                          | Some d \<Rightarrow> if modelVersion d \<noteq> [] then modelVersion d else MODEL_VERSION_1 w)
                in if supportsAccel w mv then None
                   else Some (metricNotSupportedByModel ''accelerometer'' mv))))"
| "detected_failure w n CreateOAuthURL =
     (if isNode w then None
      else Some (Error (prefix @ ''the createOAuthURL method must be used on the server side (node.js) for security reasons.'')))"
| "detected_failure w n GetOAuthToken =
     (if isNode w then None
      else Some (Error (prefix @ ''the getOAuthToken method must be used on the server side (node.js) for security reasons.'')))"
| "detected_failure w n (Skill bundleId) =
     (if \<not> didSelectDevice (api n) then Some mustSelectDevice
      else case firebase_getSkill w of
        Inl e \<Rightarrow> Some e
      | Inr skillData \<Rightarrow>
          if skillData = JNull
          then Some (Error (prefix @ ''Access denied for: '' @ bundleId @ ''. Make sure the skill is installed.''))
          else None)"
| "detected_failure w n (TrainingRecord training) =
     (if \<not> didSelectDevice (api n) then Some mustSelectDevice
      else case timestamp w (api n) of Inl e \<Rightarrow> Some e | Inr t \<Rightarrow> None)"
| "detected_failure w n (TrainingStop training) =
     (if \<not> didSelectDevice (api n) then Some mustSelectDevice else None)"
| "detected_failure w n TrainingStopAll =
     (if \<not> didSelectDevice (api n) then Some mustSelectDevice else None)"
| "detected_failure w n (AddMarker label) = None"
| "detected_failure w n x =
     (case required_scopes w x of
        [] \<Rightarrow> None
      | s # ss \<Rightarrow> authorize (userClaims (api n)) s)"

text \<open>How a failure reaches the caller of a method.\<close>

definition surfaced :: "op \<Rightarrow> js_error \<Rightarrow> outcome" where
  "surfaced x e =
     (if throwing_method x then Throws e
      else if returns_stream x then StreamErrors e
      else Rejects e)"

text \<open>The number of logical listeners attached under a key.\<close>

definition listeners_of :: "Multiplexer \<Rightarrow> PhysicalKey \<Rightarrow> nat" where
  "listeners_of m k = length (filter (\<lambda>(h, k'). k' = k) (attached m))"

text \<open>
  The consistency of a multiplexer: one physical subscription per key, one entry per
  subscription id, every count positive and equal to the number of listeners attached
  under the key, every listener attached to a physical subscription that exists, and
  ids and handles below the next ones.
\<close>

definition mux_inv :: "Multiplexer \<Rightarrow> bool" where
  "mux_inv m \<longleftrightarrow>
     distinct (map key (table m)) \<and>
     distinct (map fst (attached m)) \<and>
     (\<forall>p \<in> set (table m). listenerCount p = int (listeners_of m (key p)) \<and> 0 < listenerCount p) \<and>
     (\<forall>l \<in> set (attached m). snd l \<in> set (map key (table m)) \<and> fst l < nextSubscriptionId m) \<and>
     (\<forall>p \<in> set (table m). transportHandle p < nextTransportHandle m)"

subsection \<open>Concrete inputs\<close>

text \<open>A world, the options of \<open>new Notion()\<close>, options with a socket URL, a device, a probe.\<close>

definition demo_world :: world where
  "demo_world =
     \<lparr> date_now = 1000,
       ipk_metrics = [''awareness'', ''brainwaves'', ''kinesis''],
       scopeRequiredByFunctionName = (\<lambda>f. ''read:'' @ f),
       scopeRequiredByAction = (\<lambda>c a. ''write:'' @ c),
       getLabels = (\<lambda>m. []),
       isNode = True,
       timesync_window = 5,
       firebase_login = Inr (JObj [(''uid'', JStr ''u1'')]),
       firebase_getSkill = Inr JNull,
       once_socketUrl = Inr JNull,
       supportsHaptics = (\<lambda>v. v \<noteq> ''1''),
       supportsAccel = (\<lambda>v. v \<noteq> ''1''),
       getPlatformHapticMotors = (\<lambda>v. [(''P7'', []), (''P8'', [])]),
       MODEL_VERSION_1 = ''1'',
       hapticEffects = JObj [] \<rparr>"

definition no_options :: NotionOptions where
  "no_options =
     \<lparr> given_deviceId = None, given_onDeviceSocketUrl = None, given_timesync = None,
       given_autoSelectDevice = None, given_emulator = None, given_emulatorHost = None,
       given_emulatorAuthPort = None, given_emulatorDatabasePort = None,
       given_emulatorFunctionsPort = None, given_emulatorFirestorePort = None \<rparr>"

definition socket_options :: NotionOptions where
  "socket_options = no_options\<lparr>given_onDeviceSocketUrl := Some ''ws://crown.local''\<rparr>"

definition timesync_options :: NotionOptions where
  "timesync_options = no_options\<lparr>given_timesync := Some True\<rparr>"

definition demo_device :: DeviceInfo where
  "demo_device = \<lparr> device_deviceId = ''A'', deviceNickname = ''Crown-85A'', modelVersion = ''2'' \<rparr>"

definition demo_probe :: probe where
  "demo_probe = \<lparr> sendTime = 0, deviceTime = 60, receiveTime = 100 \<rparr>"

section \<open>Properties\<close>

lemmas op_defs =
  login_def api_login_def addDevice_def removeDevice_def transferDevice_def onUserDevicesChange_def
  selectDevice_def getSelectedDevice_def getInfo_def isLocalMode_def onDeviceChange_def
  enableLocalMode_def disconnect_def socketUrl_def dispatchAction_def addMarker_def haptics_def
  getHapticEffects_def accelerometer_def brainwaves_def calm_def signalQuality_def settings_def
  focus_def kinesis_def predictions_def status_def changeSettings_def training_record_def
  training_stop_def training_stopAll_def getTimesyncOffset_def createOAuthURL_def
  getOAuthToken_def skill_def skill_metric_subscribe_def skill_metric_unsubscribe_def
  skill_metric_next_def void_api_def backend_def probe_done_def via_api_def guarded_promise_def
  guarded_stream_def localMode_next_def

lemmas api_defs =
  record_call_def actions_dispatch_def api_disconnect_def api_getInfo_def onStatus_def
  offStatus_def metrics_next_def metrics_on_def metrics_subscribe_def metrics_unsubscribe_def
  skills_get_def

subsection \<open>Auxiliary facts\<close>

lemma truthy_str_iff: "truthy_str u = (\<exists>s. u = Some s \<and> s \<noteq> [])"
  by (cases u) auto

subsection \<open>The multiplexer\<close>

lemma normalize_labels_eq_iff: "normalize_labels a = normalize_labels b \<longleftrightarrow> set a = set b"
proof
  assume "normalize_labels a = normalize_labels b"
  then have "set (sort (remdups a)) = set (sort (remdups b))"
    by (simp add: normalize_labels_def)
  then show "set a = set b" by simp
next
  assume eq: "set a = set b"
  have "sort (remdups a) = sorted_list_of_set (set a)" "sort (remdups b) = sorted_list_of_set (set b)"
    by (simp_all add: sorted_list_of_set_sort_remdups)
  with eq show "normalize_labels a = normalize_labels b"
    by (simp add: normalize_labels_def)
qed

lemma key_of_eq_iff:
  "key_of r = key_of r' \<longleftrightarrow>
     metric r = metric r' \<and> set (labels r) = set (labels r') \<and> atomic r = atomic r'
     \<and> serverType r = serverType r'"
  by (auto simp: key_of_def normalize_labels_eq_iff)

lemma key_count_update:
  "map key (map (\<lambda>p. if key p = k then p\<lparr>listenerCount := g p\<rparr> else p) ps) = map key ps"
  by (induction ps) auto

lemma count_without:
  assumes "distinct (map fst xs)" and "(h, k) \<in> set xs"
  shows "length (filter (\<lambda>(h', k'). k' = k0) (filter (\<lambda>(h', k'). h' \<noteq> h) xs)) + (if k = k0 then 1 else 0)
         = length (filter (\<lambda>(h', k'). k' = k0) xs)"
  using assms
proof (induction xs)
  case Nil
  then show ?case by simp
next
  case (Cons x xs)
  obtain h1 k1 where x: "x = (h1, k1)" by (cases x)
  show ?case
  proof (cases "h1 = h")
    case True
    with Cons.prems x have k1: "k1 = k"
      by (auto simp: image_iff)
    from Cons.prems x True have "\<forall>y \<in> set xs. fst y \<noteq> h"
      by (auto simp: image_iff)
    then have "filter (\<lambda>(h', k'). h' \<noteq> h) xs = xs"
      by (auto simp: filter_id_conv)
    with x True k1 show ?thesis by simp
  next
    case False
    with Cons.prems x have "(h, k) \<in> set xs" "distinct (map fst xs)" by auto
    from Cons.IH[OF this(2) this(1)] x False show ?thesis by simp
  qed
qed

lemma no_listener_without_physical:
  assumes "\<forall>l \<in> set (attached m). snd l \<in> set (map key (table m))"
    and "k \<notin> set (map key (table m))"
  shows "listeners_of m k = 0"
  using assms by (auto simp: listeners_of_def filter_empty_conv)

lemma mux_inv_subscribe:
  assumes inv: "mux_inv m"
  shows "mux_inv (snd (subscribeToMetric r m))"
proof -
  define k where "k = key_of r"
  define h where "h = nextSubscriptionId m"
  define f :: "PhysicalSubscription \<Rightarrow> PhysicalSubscription" where "f = (\<lambda>p. if key p = k then p\<lparr>listenerCount := listenerCount p + 1\<rparr> else p)"
  from inv have d1: "distinct (map key (table m))" and d2: "distinct (map fst (attached m))"
    and cnt: "\<And>p. p \<in> set (table m) \<Longrightarrow> listenerCount p = int (listeners_of m (key p)) \<and> 0 < listenerCount p"
    and att: "\<And>l. l \<in> set (attached m) \<Longrightarrow> snd l \<in> set (map key (table m)) \<and> fst l < h"
    and th: "\<And>p. p \<in> set (table m) \<Longrightarrow> transportHandle p < nextTransportHandle m"
    by (auto simp: mux_inv_def h_def)
  have fresh: "h \<notin> set (map fst (attached m))"
    using att by force
  have lo: "\<And>m' k'. attached m' = attached m @ [(h, k)] \<Longrightarrow>
              listeners_of m' k' = listeners_of m k' + (if k = k' then 1 else 0)"
    by (simp add: listeners_of_def)
  show ?thesis
  proof (cases "\<exists>p \<in> set (table m). key p = k")
    case True
    define m' where "m' = m\<lparr>attached := attached m @ [(h, k)], nextSubscriptionId := Suc h,
                            table := map f (table m)\<rparr>"
    have res: "snd (subscribeToMetric r m) = m'"
      using True by (simp add: subscribeToMetric_def Let_def k_def h_def f_def m'_def)
    have keys: "map key (table m') = map key (table m)"
      by (simp add: m'_def f_def key_count_update)
    have a': "attached m' = attached m @ [(h, k)]" by (simp add: m'_def)
    have c1: "distinct (map key (table m'))" using keys d1 by simp
    have c2: "distinct (map fst (attached m'))" using d2 fresh a' by simp
    have c3: "\<forall>p \<in> set (table m'). listenerCount p = int (listeners_of m' (key p)) \<and> 0 < listenerCount p"
    proof
      fix p' assume "p' \<in> set (table m')"
      then obtain p where p: "p \<in> set (table m)" "p' = f p" by (auto simp: m'_def)
      from cnt[OF p(1)] lo[OF a'] p(2) show "listenerCount p' = int (listeners_of m' (key p')) \<and> 0 < listenerCount p'"
        by (auto simp: f_def)
    qed
    have c4: "\<forall>l \<in> set (attached m'). snd l \<in> set (map key (table m')) \<and> fst l < nextSubscriptionId m'"
    proof
      fix l assume "l \<in> set (attached m')"
      then have "l \<in> set (attached m) \<or> l = (h, k)" by (auto simp: a')
      then show "snd l \<in> set (map key (table m')) \<and> fst l < nextSubscriptionId m'"
      proof
        assume "l \<in> set (attached m)"
        from att[OF this] show ?thesis unfolding keys by (simp add: m'_def)
      next
        assume "l = (h, k)"
        with True show ?thesis unfolding keys by (auto simp: m'_def)
      qed
    qed
    have c5: "\<forall>p \<in> set (table m'). transportHandle p < nextTransportHandle m'"
      using th by (auto simp: m'_def f_def)
    from c1 c2 c3 c4 c5 show ?thesis unfolding res mux_inv_def by blast
  next
    case False
    define new where "new = \<lparr> key = k, transportHandle = nextTransportHandle m, listenerCount = 1 \<rparr>"
    define m' where "m' = m\<lparr>attached := attached m @ [(h, k)], nextSubscriptionId := Suc h,
                            table := table m @ [new],
                            nextTransportHandle := Suc (nextTransportHandle m)\<rparr>"
    have res: "snd (subscribeToMetric r m) = m'"
      using False by (simp add: subscribeToMetric_def Let_def k_def h_def new_def m'_def)
    have nk: "k \<notin> set (map key (table m))" using False by auto
    have z: "listeners_of m k = 0"
      using no_listener_without_physical[OF _ nk] att by blast
    have a': "attached m' = attached m @ [(h, k)]" by (simp add: m'_def)
    have t': "table m' = table m @ [new]" by (simp add: m'_def)
    have c1: "distinct (map key (table m'))" using d1 nk by (simp add: t' new_def)
    have c2: "distinct (map fst (attached m'))" using d2 fresh a' by simp
    have c3: "\<forall>p \<in> set (table m'). listenerCount p = int (listeners_of m' (key p)) \<and> 0 < listenerCount p"
    proof
      fix p assume "p \<in> set (table m')"
      then have "p \<in> set (table m) \<or> p = new" by (auto simp: t')
      then show "listenerCount p = int (listeners_of m' (key p)) \<and> 0 < listenerCount p"
      proof
        assume p: "p \<in> set (table m)"
        then have "key p \<noteq> k" using nk by auto
        with cnt[OF p] lo[OF a'] show ?thesis by simp
      next
        assume "p = new"
        with z lo[OF a'] show ?thesis by (simp add: new_def)
      qed
    qed
    have c4: "\<forall>l \<in> set (attached m'). snd l \<in> set (map key (table m')) \<and> fst l < nextSubscriptionId m'"
    proof
      fix l assume "l \<in> set (attached m')"
      then have "l \<in> set (attached m) \<or> l = (h, k)" by (auto simp: a')
      then show "snd l \<in> set (map key (table m')) \<and> fst l < nextSubscriptionId m'"
      proof
        assume "l \<in> set (attached m)"
        from att[OF this] show ?thesis by (auto simp: t' m'_def)
      next
        assume "l = (h, k)"
        then show ?thesis by (simp add: t' new_def m'_def)
      qed
    qed
    have c5: "\<forall>p \<in> set (table m'). transportHandle p < nextTransportHandle m'"
      using th by (auto simp: m'_def new_def less_Suc_eq)
    from c1 c2 c3 c4 c5 show ?thesis unfolding res mux_inv_def by blast
  qed
qed

lemma mux_inv_unsubscribe:
  assumes inv: "mux_inv m"
  shows "mux_inv (unsubscribFromMetric h m)"
proof (cases "map_of (attached m) h")
  case None
  with inv show ?thesis by (simp add: unsubscribFromMetric_def)
next
  case (Some k)
  define g :: "PhysicalSubscription \<Rightarrow> PhysicalSubscription" where "g = (\<lambda>p. if key p = k then p\<lparr>listenerCount := listenerCount p - 1\<rparr> else p)"
  define keep :: "PhysicalSubscription \<Rightarrow> bool" where "keep = (\<lambda>p. \<not> (key p = k \<and> listenerCount p = 0))"
  define m' where "m' = m\<lparr>attached := filter (\<lambda>(h', k'). h' \<noteq> h) (attached m),
                          table := filter keep (map g (table m))\<rparr>"
  have res: "unsubscribFromMetric h m = m'"
    using Some by (simp add: unsubscribFromMetric_def g_def keep_def m'_def)
  from inv have d1: "distinct (map key (table m))" and d2: "distinct (map fst (attached m))"
    and cnt: "\<And>p. p \<in> set (table m) \<Longrightarrow> listenerCount p = int (listeners_of m (key p)) \<and> 0 < listenerCount p"
    and att: "\<And>l. l \<in> set (attached m) \<Longrightarrow> snd l \<in> set (map key (table m)) \<and> fst l < nextSubscriptionId m"
    and th: "\<And>p. p \<in> set (table m) \<Longrightarrow> transportHandle p < nextTransportHandle m"
    by (auto simp: mux_inv_def)
  from Some have hk: "(h, k) \<in> set (attached m)" by (rule map_of_SomeD)
  have lo: "\<And>k0. listeners_of m' k0 + (if k = k0 then 1 else 0) = listeners_of m k0"
    using count_without[OF d2 hk] by (simp add: listeners_of_def m'_def)
  have gkey: "\<And>p. key (g p) = key p" by (simp add: g_def)
  have c1: "distinct (map key (table m'))"
  proof -
    have kg: "key \<circ> g = key" by (rule ext) (simp add: gkey)
    from d1 have "distinct (map key (map g (table m)))" by (simp add: kg)
    then show ?thesis unfolding m'_def by (simp add: distinct_map_filter del: map_map)
  qed
  have c2: "distinct (map fst (attached m'))"
    using d2 by (simp add: m'_def distinct_map_filter)
  have c3: "\<forall>p \<in> set (table m'). listenerCount p = int (listeners_of m' (key p)) \<and> 0 < listenerCount p"
  proof
    fix p' assume "p' \<in> set (table m')"
    then obtain p where p: "p \<in> set (table m)" "p' = g p" "keep p'" by (auto simp: m'_def)
    show "listenerCount p' = int (listeners_of m' (key p')) \<and> 0 < listenerCount p'"
    proof (cases "key p = k")
      case True
      with p(2) have lc: "listenerCount p' = listenerCount p - 1" "key p' = k" by (simp_all add: g_def)
      from cnt[OF p(1)] True lo[of k] have "listenerCount p - 1 = int (listeners_of m' k)" by simp
      moreover from p(3) lc have "listenerCount p' \<noteq> 0" by (simp add: keep_def)
      ultimately show ?thesis using lc by simp
    next
      case False
      with p(2) have "p' = p" by (simp add: g_def)
      with cnt[OF p(1)] lo[of "key p"] False show ?thesis by simp
    qed
  qed
  have c4: "\<forall>l \<in> set (attached m'). snd l \<in> set (map key (table m')) \<and> fst l < nextSubscriptionId m'"
  proof
    fix l assume l': "l \<in> set (attached m')"
    then have l: "l \<in> set (attached m)" by (auto simp: m'_def)
    from att[OF l] obtain p where p: "p \<in> set (table m)" "key p = snd l" by auto
    have "keep (g p)"
    proof (cases "snd l = k")
      case True
      from l' have "l \<in> set (filter (\<lambda>(h', k'). k' = k) (attached m'))"
        using True by (cases l) auto
      then have "0 < listeners_of m' k"
        unfolding listeners_of_def by (rule length_pos_if_in_set)
      with lo[of k] cnt[OF p(1)] p(2) True show ?thesis by (simp add: keep_def g_def)
    next
      case False
      with p(2) show ?thesis by (simp add: keep_def g_def)
    qed
    with p have "g p \<in> set (table m')" "key (g p) = snd l" by (auto simp: m'_def gkey)
    then have "snd l \<in> set (map key (table m'))" by force
    with att[OF l] show "snd l \<in> set (map key (table m')) \<and> fst l < nextSubscriptionId m'"
      by (simp add: m'_def)
  qed
  have c5: "\<forall>p \<in> set (table m'). transportHandle p < nextTransportHandle m'"
    using th by (auto simp: m'_def g_def)
  from c1 c2 c3 c4 c5 show ?thesis unfolding res mux_inv_def by blast
qed

lemma mux_inv_new: "mux_inv Multiplexer_new"
  by (simp add: mux_inv_def Multiplexer_new_def)


lemma subscribe_id:
  "subscriptionId (fst (subscribeToMetric r m)) = nextSubscriptionId m"
  "nextSubscriptionId (snd (subscribeToMetric r m)) = Suc (nextSubscriptionId m)"
  "attached (snd (subscribeToMetric r m)) = attached m @ [(nextSubscriptionId m, key_of r)]"
  by (simp_all add: subscribeToMetric_def Let_def)

lemma subscribe_key_present:
  "key_of r \<in> set (map key (table (snd (subscribeToMetric r m))))"
proof (cases "\<exists>p \<in> set (table m). key p = key_of r")
  case True
  then have "map key (table (snd (subscribeToMetric r m))) = map key (table m)"
    by (simp add: subscribeToMetric_def Let_def key_count_update)
  moreover from True have "key_of r \<in> set (map key (table m))" by force
  ultimately show ?thesis by simp
next
  case False
  then show ?thesis by (simp add: subscribeToMetric_def Let_def)
qed

lemma subscribe_existing:
  assumes "key_of r \<in> set (map key (table m))"
  shows "nextTransportHandle (snd (subscribeToMetric r m)) = nextTransportHandle m"
proof -
  from assms have "\<exists>p \<in> set (table m). key p = key_of r" by force
  then show ?thesis by (simp add: subscribeToMetric_def Let_def)
qed

lemma subscribe_creates_at_most_one:
  "nextTransportHandle (snd (subscribeToMetric r m)) \<le> Suc (nextTransportHandle m)"
  by (simp add: subscribeToMetric_def Let_def)

lemma one_of_distinct:
  "distinct (map key ps) \<Longrightarrow> k \<in> set (map key ps) \<Longrightarrow> length (filter (\<lambda>p. key p = k) ps) = 1"
proof (induction ps)
  case Nil
  then show ?case by simp
next
  case (Cons p ps)
  show ?case
  proof (cases "key p = k")
    case True
    with Cons.prems have nk: "k \<notin> set (map key ps)" by simp
    have "filter (\<lambda>p. key p = k) ps = []"
      unfolding filter_empty_conv
    proof (intro ballI notI)
      fix q assume "q \<in> set ps" "key q = k"
      then have "k \<in> set (map key ps)" by force
      with nk show False ..
    qed
    with True show ?thesis by simp
  next
    case False
    with Cons.prems have "distinct (map key ps)" "k \<in> set (map key ps)" by auto
    from Cons.IH[OF this] False show ?thesis by simp
  qed
qed

lemma subscribe_pair:
  assumes inv: "mux_inv m" and eq: "key_of r1 = key_of r2"
    and s1: "subscribeToMetric r1 m = (s1, m1)" and s2: "subscribeToMetric r2 m1 = (s2, m2)"
  shows "mux_inv m2"
    and "subscriptionId s1 \<noteq> subscriptionId s2"
    and "length (filter (\<lambda>p. key p = key_of r1) (table m2)) = 1"
    and "nextTransportHandle m2 = nextTransportHandle m1"
    and "nextTransportHandle m1 \<le> Suc (nextTransportHandle m)"
    and "\<exists>p \<in> set (table m2). key p = key_of r1
           \<and> listenerCount p = int (listeners_of m2 (key_of r1)) \<and> 2 \<le> listenerCount p"
    and "(subscriptionId s1, key_of r1) \<in> set (attached m2)"
    and "(subscriptionId s2, key_of r1) \<in> set (attached m2)"
proof -
  have m1: "m1 = snd (subscribeToMetric r1 m)" and m2: "m2 = snd (subscribeToMetric r2 m1)"
    and e1: "s1 = fst (subscribeToMetric r1 m)" and e2: "s2 = fst (subscribeToMetric r2 m1)"
    using s1 s2 by simp_all
  have inv1: "mux_inv m1" unfolding m1 by (rule mux_inv_subscribe[OF inv])
  show inv2: "mux_inv m2" unfolding m2 by (rule mux_inv_subscribe[OF inv1])
  have id1: "subscriptionId s1 = nextSubscriptionId m" by (simp add: e1 subscribe_id)
  have id2: "subscriptionId s2 = Suc (nextSubscriptionId m)" by (simp add: e2 m1 subscribe_id)
  show "subscriptionId s1 \<noteq> subscriptionId s2" by (simp add: id1 id2)
  have k1: "key_of r2 \<in> set (map key (table m1))"
    unfolding m1 eq[symmetric] by (rule subscribe_key_present)
  have k2: "key_of r1 \<in> set (map key (table m2))"
    unfolding m2 eq by (rule subscribe_key_present)
  from inv2 have "distinct (map key (table m2))" by (simp add: mux_inv_def)
  from one_of_distinct[OF this k2]
  show "length (filter (\<lambda>p. key p = key_of r1) (table m2)) = 1" .
  show "nextTransportHandle m2 = nextTransportHandle m1"
    unfolding m2 by (rule subscribe_existing[OF k1])
  show "nextTransportHandle m1 \<le> Suc (nextTransportHandle m)"
    unfolding m1 by (rule subscribe_creates_at_most_one)
  have att: "attached m2 = attached m @ [(subscriptionId s1, key_of r1), (subscriptionId s2, key_of r1)]"
    by (simp add: m2 m1 subscribe_id id1 id2 eq)
  show "(subscriptionId s1, key_of r1) \<in> set (attached m2)"
    and "(subscriptionId s2, key_of r1) \<in> set (attached m2)"
    by (simp_all add: att)
  have two: "2 \<le> listeners_of m2 (key_of r1)" by (simp add: listeners_of_def att)
  from k2 obtain p where p: "p \<in> set (table m2)" "key p = key_of r1" by auto
  from inv2 p(1) have "listenerCount p = int (listeners_of m2 (key p))" by (simp add: mux_inv_def)
  with p two
  show "\<exists>p \<in> set (table m2). key p = key_of r1
          \<and> listenerCount p = int (listeners_of m2 (key_of r1)) \<and> 2 \<le> listenerCount p"
    by auto
qed

subsection \<open>Clock synchronisation\<close>

lemma best_probe_mem: "best_probe b ps \<in> set (b # ps)"
  by (induction ps arbitrary: b) auto

lemma best_probe_min: "\<forall>q \<in> set (b # ps). latency (best_probe b ps) \<le> latency q"
proof (induction ps arbitrary: b)
  case Nil
  then show ?case by simp
next
  case (Cons p ps)
  define b' where "b' = (if latency p < latency b then p else b)"
  from Cons.IH[of b'] have ih: "\<And>q. q \<in> set (b' # ps) \<Longrightarrow> latency (best_probe b' ps) \<le> latency q"
    by blast
  have le: "latency b' \<le> latency b" "latency b' \<le> latency p" by (simp_all add: b'_def)
  from ih[of b'] have top: "latency (best_probe b' ps) \<le> latency b'" by simp
  show ?case
  proof
    fix q assume "q \<in> set (b # p # ps)"
    then consider "q = b" | "q = p" | "q \<in> set ps" by auto
    then show "latency (best_probe b (p # ps)) \<le> latency q"
    proof cases
      case 1
      with top le show ?thesis by (simp add: b'_def)
    next
      case 2
      with top le show ?thesis by (simp add: b'_def)
    next
      case 3
      with ih[of q] show ?thesis by (simp add: b'_def)
    qed
  qed
qed

lemma slide_snoc: "0 < n \<Longrightarrow> slide n (xs @ [p]) = slide (n - 1) xs @ [p]"
  by (simp add: slide_def Suc_diff_le)

lemma on_probe_enabled:
  assumes "enabled ts" and "0 < windowSize ts"
  shows "window (on_probe (Some p) ts) = slide (windowSize ts) (window ts @ [p])"
    and "\<exists>b bs. window (on_probe (Some p) ts) = b # bs
           \<and> offsetMillis (on_probe (Some p) ts) = estimate (best_probe b bs)"
    and "enabled (on_probe (Some p) ts)"
proof -
  have "slide (windowSize ts) (window ts @ [p]) \<noteq> []"
    by (simp add: slide_snoc[OF assms(2)])
  then obtain b bs where w: "slide (windowSize ts) (window ts @ [p]) = b # bs"
    by (cases "slide (windowSize ts) (window ts @ [p])") simp_all
  from assms(1) w show "window (on_probe (Some p) ts) = slide (windowSize ts) (window ts @ [p])"
    by (simp add: on_probe_def)
  from assms(1) w show "\<exists>b bs. window (on_probe (Some p) ts) = b # bs
           \<and> offsetMillis (on_probe (Some p) ts) = estimate (best_probe b bs)"
    by (simp add: on_probe_def)
  from assms(1) w show "enabled (on_probe (Some p) ts)"
    by (simp add: on_probe_def)
qed

subsection \<open>One step and a history of steps\<close>

lemmas op_splits = option.splits sum.splits prod.splits if_splits js_value.splits outcome.splits

lemmas guard_defs =
  authorize_def validateOAuthScopeForFunctionName_def validateOAuthScopeForAction_def

lemmas demo_defs =
  demo_world_def no_options_def socket_options_def timesync_options_def demo_device_def
  demo_probe_def Notion_new_def ApiClient_new_def Multiplexer_new_def merge_options_def
  defaultOptions_def or_default_def

lemma frame_step:
  "options (snd (step w x n)) = options n
   \<and> api_options (api (snd (step w x n))) = api_options (api n)
   \<and> onDeviceSocket (api (snd (step w x n))) = onDeviceSocket (api n)"
  by (cases x) (auto simp: op_defs api_defs Let_def split: op_splits)

lemma frame_run:
  "options (run hst n) = options n
   \<and> api_options (api (run hst n)) = api_options (api n)
   \<and> onDeviceSocket (api (run hst n)) = onDeviceSocket (api n)"
proof (induction hst arbitrary: n)
  case Nil
  then show ?case by simp
next
  case (Cons wx hst)
  obtain w x where wx: "wx = (w, x)" by (cases wx)
  from Cons.IH[of "snd (step w x n)"] frame_step[of w x n] show ?case by (simp add: wx)
qed

lemma mux_inv_step:
  assumes "mux_inv (firebase (api n))"
  shows "mux_inv (firebase (api (snd (step w x n))))"
proof (cases x)
  case (SkillMetricSubscribe skillId label)
  from mux_inv_subscribe[OF assms] SkillMetricSubscribe show ?thesis
    by (simp add: op_defs api_defs Let_def split: prod.splits) (metis snd_conv)
next
  case (MetricsSubscribe r)
  from mux_inv_subscribe[OF assms] MetricsSubscribe show ?thesis
    by (simp add: op_defs api_defs Let_def split: prod.splits) (metis snd_conv)
qed (use assms in \<open>auto simp: op_defs api_defs Let_def mux_inv_unsubscribe split: op_splits\<close>)

lemma mux_inv_run:
  "mux_inv (firebase (api n)) \<Longrightarrow> mux_inv (firebase (api (run hst n)))"
proof (induction hst arbitrary: n)
  case Nil
  then show ?case by simp
next
  case (Cons wx hst)
  obtain w x where wx: "wx = (w, x)" by (cases wx)
  from Cons.IH[OF mux_inv_step[OF Cons.prems, of w x]] show ?case by (simp add: wx)
qed

lemma new_instance:
  "options (Notion_new g) = merge_options defaultOptions g"
  "api_options (api (Notion_new g)) = merge_options defaultOptions g"
  "onDeviceSocket (api (Notion_new g)) \<noteq> None \<longleftrightarrow> truthy_str (given_onDeviceSocketUrl g)"
  "firebase (api (Notion_new g)) = Multiplexer_new"
  "localModeSubject (Notion_new g) = False"
  by (simp_all add: Notion_new_def ApiClient_new_def Let_def merge_options_def truthy_str_iff
        split: option.splits)

lemma console_step:
  "console (snd (step w x n)) \<noteq> console n \<Longrightarrow> x = GetTimesyncOffset \<and> \<not> timesync (options n)"
  by (cases x) (auto simp: op_defs Let_def split: op_splits)

lemma no_throw_step:
  "\<not> throwing_method x \<Longrightarrow> fst (step w x n) \<noteq> Throws e"
  by (cases x) (auto simp: op_defs api_defs Let_def split: op_splits)

lemma haptics_loop_error:
  "haptics_loop mv effects req = Inl e \<Longrightarrow> \<exists>text. e = Error text"
  by (induction effects arbitrary: req)
     (auto simp: locationNotFound_def exceededMaxItems_def split: if_splits)

lemma guard_denies_step:
  "s \<in> set (required_scopes w x) \<and> s \<notin> userClaims (api n) \<longrightarrow>
     failed (fst (step w x n)) \<and> no_transport_call n (snd (step w x n))"
  by (cases x)
     (auto simp: op_defs api_defs guard_defs Let_def no_transport_call_def split: op_splits)

lemma scope_error_from_guard:
  "required_scopes w x \<noteq> [] \<and>
   (fst (step w x n) = Rejects (ScopeError s) \<or> fst (step w x n) = StreamErrors (ScopeError s)) \<longrightarrow>
     s \<in> set (required_scopes w x) \<and> s \<notin> userClaims (api n)"
  by (cases x)
     (auto simp: op_defs api_defs guard_defs Let_def mustSelectDevice_def
           metricNotSupportedByModel_def
           dest: haptics_loop_error split: op_splits)

lemma single_guard_step:
  "required_scopes w x = [s] \<and> single_guard x \<longrightarrow>
     (if needs_device x \<and> \<not> didSelectDevice (api n)
      then step w x n = (Rejects mustSelectDevice, n)
      else if s \<notin> userClaims (api n)
      then step w x n = (surfaced x (ScopeError s), n)
      else \<exists>c. step w x n = (Delegates c, n\<lparr>api := record_call c (api n)\<rparr>))"
  by (cases x)
     (auto simp: op_defs api_defs guard_defs Let_def surfaced_def split: op_splits)

lemma accelerometer_step:
  "step w Accelerometer n =
     (if scopeRequiredByFunctionName w ''accelerometer'' \<notin> userClaims (api n)
      then (StreamErrors (ScopeError (scopeRequiredByFunctionName w ''accelerometer'')), n)
      else if scopeRequiredByFunctionName w ''getSelectedDevice'' \<notin> userClaims (api n)
      then (StreamErrors (ScopeError (scopeRequiredByFunctionName w ''getSelectedDevice'')), n)
      else (let n1 = n\<lparr>api := record_call (Api ''getSelectedDevice'') (api n)\<rparr>;
                mv = (case selectedDevice (api n) of
                        None \<Rightarrow> MODEL_VERSION_1 w
                      | Some d \<Rightarrow> if modelVersion d \<noteq> [] then modelVersion d else MODEL_VERSION_1 w);
                c = GetMetric \<lparr> metric = ''accelerometer'', labels = getLabels w ''accelerometer'',
                                atomic = True \<rparr>
            in if supportsAccel w mv
               then (Delegates c, n1\<lparr>api := record_call c (api n1)\<rparr>)
               else (StreamErrors (metricNotSupportedByModel ''accelerometer'' mv), n1)))"
  by (auto simp: op_defs api_defs guard_defs Let_def split: op_splits)

lemma addMarker_step:
  "didSelectDevice (api n) \<and> l \<noteq> [] \<and> timestamp w (api n) = Inr t \<longrightarrow>
   step w (AddMarker (Some l)) n =
     (let c = Firebase_dispatchAction
                \<lparr> command = ''marker'', action = ''add'',
                  message = [(''label'', JStr l), (''timestamp'', JNum t)],
                  responseRequired = False, responseTimeout = None \<rparr>
      in if scopeRequiredByAction w ''marker'' ''add'' \<notin> userClaims (api n)
         then (Rejects (ScopeError (scopeRequiredByAction w ''marker'' ''add'')), n)
         else (Delegates c, n\<lparr>api := record_call c (api n)\<rparr>))"
  by (auto simp: op_defs api_defs guard_defs Let_def split: op_splits)

lemma haptics_step:
  "selectedDevice (api n) = Some d \<and> supportsHaptics w (modelVersion d) \<and>
   haptics_loop (modelVersion d) (for_in effects) (getPlatformHapticMotors w (modelVersion d)) = Inr req \<longrightarrow>
   step w (Haptics effects) n =
     (let n1 = n\<lparr>api := record_call (Api ''getSelectedDevice'') (api n)\<rparr>;
          c = Firebase_dispatchAction
                \<lparr> command = ''haptics'', action = ''queue'',
                  message = [(''effects'', JObj (map (\<lambda>(k, es). (k, JArr (map JStr es))) req))],
                  responseRequired = True, responseTimeout = Some 1000 \<rparr>
      in if scopeRequiredByFunctionName w ''getSelectedDevice'' \<notin> userClaims (api n)
         then (Rejects (ScopeError (scopeRequiredByFunctionName w ''getSelectedDevice'')), n)
         else if scopeRequiredByAction w ''haptics'' ''queue'' \<notin> userClaims (api n)
         then (Rejects (ScopeError (scopeRequiredByAction w ''haptics'' ''queue'')), n1)
         else (Delegates c, n1\<lparr>api := record_call c (api n1)\<rparr>))"
  by (auto simp: op_defs api_defs guard_defs Let_def didSelectDevice_def split: op_splits)

lemma failure_surfaced:
  "(\<forall>l. x \<noteq> AddMarker l) \<and> detected_failure w n x = Some e \<longrightarrow> fst (step w x n) = surfaced x e"
  by (cases x)
     (auto simp: op_defs api_defs guard_defs Let_def surfaced_def didSelectDevice_def
           split: op_splits list.splits)

lemma no_failure_found:
  "(\<forall>l. x \<noteq> AddMarker l) \<and> detected_failure w n x = None \<longrightarrow> \<not> failed (fst (step w x n))"
  by (cases x)
     (auto simp: op_defs api_defs guard_defs Let_def didSelectDevice_def
           split: op_splits list.splits)

section \<open>The claims\<close>

text \<open>
  C8: in every state (with or without a selected device, whatever socket URL the device
  advertised), \<open>enableLocalMode(false)\<close> resolves with \<open>false\<close> and pushes \<open>false\<close> into the
  local-mode subject, so the flag is \<open>false\<close> afterwards; nothing else of the instance
  changes and no collaborator is called.
\<close>

theorem enableLocalMode_false_always_succeeds:
  "step w (EnableLocalMode (JBool False)) n =
     (Resolves (JBool False),
      n\<lparr>localModeSubject := False, localModeEmitted := localModeEmitted n @ [False]\<rparr>)"
  by (simp add: enableLocalMode_def localMode_next_def)

text \<open>
  C4: when the value read from \<open>context/socketUrl\<close> is falsy (the device advertised no
  socket URL), \<open>enableLocalMode(true)\<close> rejects with the error "Your device's OS does not
  support localMode", the local-mode flag keeps the value it had (in particular \<open>false\<close>
  stays \<open>false\<close>) and nothing is pushed into the local-mode subject.
\<close>

theorem enableLocalMode_true_without_socketUrl_fails:
  assumes "once_socketUrl w = Inr v" and "\<not> truthy v"
  shows "fst (step w (EnableLocalMode (JBool True)) n) = Rejects localModeUnsupported
       \<and> localModeSubject (snd (step w (EnableLocalMode (JBool True)) n)) = localModeSubject n
       \<and> localModeEmitted (snd (step w (EnableLocalMode (JBool True)) n)) = localModeEmitted n"
  using assms by (simp add: enableLocalMode_def Let_def)

theorem enableLocalMode_true_without_socketUrl_fails_witness:
  "once_socketUrl demo_world = Inr JNull \<and> \<not> truthy JNull
   \<and> fst (step demo_world (EnableLocalMode (JBool True)) (Notion_new no_options))
       = Rejects localModeUnsupported
   \<and> localModeSubject (snd (step demo_world (EnableLocalMode (JBool True)) (Notion_new no_options)))
       = False
   \<and> localModeEmitted (snd (step demo_world (EnableLocalMode (JBool True)) (Notion_new no_options)))
       = []"
proof -
  have h1: "once_socketUrl demo_world = Inr JNull" by (simp add: demo_world_def)
  have h2: "\<not> truthy JNull" by simp
  have n0: "localModeSubject (Notion_new no_options) = False"
    "localModeEmitted (Notion_new no_options) = []"
    by (simp_all add: Notion_new_def Let_def)
  from enableLocalMode_true_without_socketUrl_fails[OF h1 h2, of "Notion_new no_options"] h1 h2 n0
  show ?thesis by simp
qed

text \<open>
  C9: when the guard lets them pass, \<open>calm()\<close> subscribes through \<open>getMetric\<close> to metric
  "awareness" with labels ["calm"] and \<open>atomic = false\<close>, and \<open>focus()\<close> to metric
  "awareness" with labels ["focus"] and \<open>atomic = false\<close>: the same metric name, narrowed
  to one label each.
\<close>

theorem calm_and_focus_subscribe_to_awareness:
  "(validateOAuthScopeForFunctionName w (userClaims (api n)) ''calm'' = None \<longrightarrow>
      fst (step w Calm n)
        = Delegates (GetMetric \<lparr> metric = ''awareness'', labels = [''calm''], atomic = False \<rparr>)
      \<and> trace (api (snd (step w Calm n)))
        = trace (api n) @ [GetMetric \<lparr> metric = ''awareness'', labels = [''calm''], atomic = False \<rparr>])
   \<and> (validateOAuthScopeForFunctionName w (userClaims (api n)) ''focus'' = None \<longrightarrow>
      fst (step w Focus n)
        = Delegates (GetMetric \<lparr> metric = ''awareness'', labels = [''focus''], atomic = False \<rparr>)
      \<and> trace (api (snd (step w Focus n)))
        = trace (api n) @ [GetMetric \<lparr> metric = ''awareness'', labels = [''focus''], atomic = False \<rparr>])"
  by (simp add: calm_def focus_def guarded_stream_def via_api_def record_call_def)

theorem calm_and_focus_subscribe_to_awareness_witness:
  "validateOAuthScopeForFunctionName demo_world
     (userClaims (api (backend (Some demo_device) [''read:calm'', ''read:focus''] None (Notion_new no_options))))
     ''calm'' = None
   \<and> validateOAuthScopeForFunctionName demo_world
     (userClaims (api (backend (Some demo_device) [''read:calm'', ''read:focus''] None (Notion_new no_options))))
     ''focus'' = None
   \<and> fst (step demo_world Calm
        (backend (Some demo_device) [''read:calm'', ''read:focus''] None (Notion_new no_options)))
       = Delegates (GetMetric \<lparr> metric = ''awareness'', labels = [''calm''], atomic = False \<rparr>)
   \<and> fst (step demo_world Focus
        (backend (Some demo_device) [''read:calm'', ''read:focus''] None (Notion_new no_options)))
       = Delegates (GetMetric \<lparr> metric = ''awareness'', labels = [''focus''], atomic = False \<rparr>)"
proof -
  let ?n = "backend (Some demo_device) [''read:calm'', ''read:focus''] None (Notion_new no_options)"
  have h1: "validateOAuthScopeForFunctionName demo_world (userClaims (api ?n)) ''calm'' = None"
    by (simp add: guard_defs backend_def demo_world_def)
  have h2: "validateOAuthScopeForFunctionName demo_world (userClaims (api ?n)) ''focus'' = None"
    by (simp add: guard_defs backend_def demo_world_def)
  from calm_and_focus_subscribe_to_awareness[of demo_world ?n] h1 h2
  show ?thesis by simp
qed

text \<open>
  C5: with \<open>options.timesync\<close> off, \<open>api.timestamp\<close> is the local clock \<open>Date.now()\<close>, and
  so is the timestamp \<open>addMarker\<close> writes into the action it dispatches;
  \<open>getTimesyncOffset()\<close> returns 0 and writes one warning to the console. No other
  operation, and no call of \<open>getTimesyncOffset()\<close> with \<open>options.timesync\<close> on, writes a
  warning.
\<close>

theorem timesync_disabled_local_time_and_warning:
  assumes "\<not> timesync (options n)" and "api_options (api n) = options n"
  shows "timestamp w (api n) = Inr (date_now w)
       \<and> step w GetTimesyncOffset n
           = (Returns (JNum 0),
              n\<lparr>console := console n @ [''getTimesyncOffset() requires options.timesync to be true.'']\<rparr>)
       \<and> (didSelectDevice (api n) \<and> l \<noteq> [] \<longrightarrow>
            step w (AddMarker (Some l)) n
              = dispatchAction w
                  \<lparr> command = ''marker'', action = ''add'',
                    message = [(''label'', JStr l), (''timestamp'', JNum (date_now w))],
                    responseRequired = False, responseTimeout = None \<rparr> n)
       \<and> (console (snd (step w' x m)) \<noteq> console m \<longrightarrow>
            x = GetTimesyncOffset \<and> \<not> timesync (options m))"
proof -
  from assms have t: "timestamp w (api n) = Inr (date_now w)"
    by (simp add: timestamp_def)
  from assms(1) have g: "step w GetTimesyncOffset n
           = (Returns (JNum 0),
              n\<lparr>console := console n @ [''getTimesyncOffset() requires options.timesync to be true.'']\<rparr>)"
    by (simp add: getTimesyncOffset_def Let_def)
  from t have a: "didSelectDevice (api n) \<and> l \<noteq> [] \<longrightarrow>
            step w (AddMarker (Some l)) n
              = dispatchAction w
                  \<lparr> command = ''marker'', action = ''add'',
                    message = [(''label'', JStr l), (''timestamp'', JNum (date_now w))],
                    responseRequired = False, responseTimeout = None \<rparr> n"
    by (simp add: addMarker_def)
  from t g a console_step[of w' x m] show ?thesis by blast
qed

theorem timesync_disabled_local_time_and_warning_witness:
  "\<not> timesync (options (Notion_new no_options))
   \<and> api_options (api (Notion_new no_options)) = options (Notion_new no_options)
   \<and> timestamp demo_world (api (Notion_new no_options)) = Inr 1000
   \<and> fst (step demo_world GetTimesyncOffset (Notion_new no_options)) = Returns (JNum 0)
   \<and> console (snd (step demo_world GetTimesyncOffset (Notion_new no_options)))
       = [''getTimesyncOffset() requires options.timesync to be true.'']
   \<and> console (snd (step demo_world GetTimesyncOffset (Notion_new timesync_options))) = []"
proof -
  have h1: "\<not> timesync (options (Notion_new no_options))"
    by (simp add: demo_defs Let_def)
  have h2: "api_options (api (Notion_new no_options)) = options (Notion_new no_options)"
    by (simp add: new_instance)
  have c0: "console (Notion_new no_options) = []" "date_now demo_world = 1000"
    by (simp_all add: demo_defs Let_def)
  have c1: "console (snd (step demo_world GetTimesyncOffset (Notion_new timesync_options))) = []"
    by (simp add: demo_defs getTimesyncOffset_def via_api_def Let_def)
  from timesync_disabled_local_time_and_warning[OF h1 h2, of demo_world] h1 h2 c0 c1
  show ?thesis by simp
qed

text \<open>
  C2, as the code has it: \<open>metrics.on\<close> and \<open>metrics.subscribe\<close> pick the on-device socket
  exactly when the instance has an on-device socket (created by the constructor when
  \<open>options.onDeviceSocketUrl\<close> is set) and the metric is a key of the \<open>metrics\<close> table of
  \<open>@neurosity/ipk\<close>; every other metric, and every metric of an instance without the
  socket, goes to the cloud client. The local-mode flag is not read: after any history of
  operations the choice is the one fixed by the constructor's options.
\<close>

theorem route_by_socket_and_allow_list:
  "(route w a m = LocalSocket \<longleftrightarrow> onDeviceSocket a \<noteq> None \<and> m \<in> set (ipk_metrics w))
   \<and> (route w a m = Cloud \<longleftrightarrow> onDeviceSocket a = None \<or> m \<notin> set (ipk_metrics w))
   \<and> serverType (routed w a r) = route w a (metric r)
   \<and> trace (metrics_on w sub a)
       = trace a @ [if route w a (metric sub) = LocalSocket then Socket_onMetric sub
                    else Firebase_onMetric sub]
   \<and> (route w (api (run hst (Notion_new g))) m = LocalSocket \<longleftrightarrow>
         truthy_str (given_onDeviceSocketUrl g) \<and> m \<in> set (ipk_metrics w))"
proof -
  have 1: "route w a m = LocalSocket \<longleftrightarrow> onDeviceSocket a \<noteq> None \<and> m \<in> set (ipk_metrics w)" for a
    by (simp add: route_def shouldRerouteToDevice_def isNotionMetric_def)
  have 2: "route w a m = Cloud \<longleftrightarrow> onDeviceSocket a = None \<or> m \<notin> set (ipk_metrics w)"
    by (auto simp: route_def shouldRerouteToDevice_def isNotionMetric_def)
  have 3: "serverType (routed w a r) = route w a (metric r)"
    by (simp add: routed_def route_def)
  have 4: "trace (metrics_on w sub a)
       = trace a @ [if route w a (metric sub) = LocalSocket then Socket_onMetric sub
                    else Firebase_onMetric sub]"
    by (simp add: metrics_on_def route_def record_call_def)
  have "onDeviceSocket (api (run hst (Notion_new g))) = onDeviceSocket (api (Notion_new g))"
    using frame_run[of hst "Notion_new g"] by simp
  with 1[of "api (run hst (Notion_new g))"] new_instance(3)[of g]
  have 5: "route w (api (run hst (Notion_new g))) m = LocalSocket \<longleftrightarrow>
         truthy_str (given_onDeviceSocketUrl g) \<and> m \<in> set (ipk_metrics w)"
    by simp
  from 1[of a] 2 3 4 5 show ?thesis by blast
qed

theorem route_by_socket_and_allow_list_witness:
  "route demo_world (api (Notion_new socket_options)) ''brainwaves'' = LocalSocket
   \<and> route demo_world (api (Notion_new socket_options)) ''status'' = Cloud
   \<and> route demo_world (api (Notion_new no_options)) ''brainwaves'' = Cloud"
proof -
  have s: "onDeviceSocket (api (Notion_new socket_options)) \<noteq> None"
    "onDeviceSocket (api (Notion_new no_options)) = None"
    "''brainwaves'' \<in> set (ipk_metrics demo_world)" "''status'' \<notin> set (ipk_metrics demo_world)"
    by (simp_all add: demo_defs Let_def)
  from route_by_socket_and_allow_list[of demo_world "api (Notion_new socket_options)" "''brainwaves''"]
    route_by_socket_and_allow_list[of demo_world "api (Notion_new socket_options)" "''status''"]
    route_by_socket_and_allow_list[of demo_world "api (Notion_new no_options)" "''brainwaves''"] s
  show ?thesis by blast
qed

text \<open>
  The claim C2 as stated fails: an instance built with \<open>onDeviceSocketUrl\<close> has local mode
  off, also after \<open>enableLocalMode(false)\<close>, and routes the allow-listed metric
  "brainwaves" to the on-device socket.
\<close>

theorem local_mode_off_routes_to_socket:
  "localModeSubject (Notion_new socket_options) = False
   \<and> route demo_world (api (Notion_new socket_options)) ''brainwaves'' = LocalSocket
   \<and> localModeSubject (run [(demo_world, EnableLocalMode (JBool False))] (Notion_new socket_options))
       = False
   \<and> route demo_world
        (api (run [(demo_world, EnableLocalMode (JBool False))] (Notion_new socket_options)))
        ''brainwaves'' = LocalSocket"
  by (simp add: demo_defs Let_def route_def shouldRerouteToDevice_def isNotionMetric_def
        enableLocalMode_def localMode_next_def)

text \<open>
  C3, as the code has it: for every method of \<open>Notion\<close> that asks the guard (eighteen ask
  it once; \<open>accelerometer\<close>, \<open>haptics\<close> and \<open>addMarker\<close> ask it themselves or through
  \<open>getSelectedDevice\<close> and \<open>dispatchAction\<close>) and every claims set: the guard reports the
  error \<open>ScopeError s\<close> exactly when the scope \<open>s\<close> it is asked for is absent from the
  claims. When a scope the method asks for is absent, the method fails and reaches no
  transport; a scope error comes out only for an asked scope that is absent. \<open>getInfo\<close>,
  \<open>dispatchAction\<close>, \<open>changeSettings\<close> (and so \<open>addMarker\<close> and \<open>haptics\<close>) test for a selected
  device before any guard and, with none selected, fail with \<open>mustSelectDevice\<close> whatever
  the claims. Otherwise a method that asks once rejects, or errors its stream, with
  \<open>ScopeError s\<close> and leaves the instance as it was when \<open>s\<close> is absent, and makes exactly
  one call and hands it on when \<open>s\<close> is present; \<open>accelerometer\<close>, \<open>addMarker\<close> and \<open>haptics\<close>
  do the same at each guard they come to. The methods of \<open>training\<close> are not covered.
\<close>

theorem guard_denies_exactly_when_scope_absent:
  "(authorize (userClaims (api n)) s = Some (ScopeError s) \<longleftrightarrow> s \<notin> userClaims (api n))
   \<and> (authorize (userClaims (api n)) s = None \<longleftrightarrow> s \<in> userClaims (api n))
   \<and> (s \<in> set (required_scopes w x) \<and> s \<notin> userClaims (api n) \<longrightarrow>
        failed (fst (step w x n)) \<and> no_transport_call n (snd (step w x n)))
   \<and> (required_scopes w x \<noteq> [] \<and>
        (fst (step w x n) = Rejects (ScopeError s) \<or> fst (step w x n) = StreamErrors (ScopeError s)) \<longrightarrow>
        s \<in> set (required_scopes w x) \<and> s \<notin> userClaims (api n))
   \<and> (required_scopes w x = [s] \<and> single_guard x \<longrightarrow>
        (if needs_device x \<and> \<not> didSelectDevice (api n)
         then step w x n = (Rejects mustSelectDevice, n)
         else if s \<notin> userClaims (api n)
         then step w x n = (surfaced x (ScopeError s), n)
         else \<exists>c. step w x n = (Delegates c, n\<lparr>api := record_call c (api n)\<rparr>)))
   \<and> step w Accelerometer n =
       (if scopeRequiredByFunctionName w ''accelerometer'' \<notin> userClaims (api n)
        then (StreamErrors (ScopeError (scopeRequiredByFunctionName w ''accelerometer'')), n)
        else if scopeRequiredByFunctionName w ''getSelectedDevice'' \<notin> userClaims (api n)
        then (StreamErrors (ScopeError (scopeRequiredByFunctionName w ''getSelectedDevice'')), n)
        else (let n1 = n\<lparr>api := record_call (Api ''getSelectedDevice'') (api n)\<rparr>;
                  mv = (case selectedDevice (api n) of
                          None \<Rightarrow> MODEL_VERSION_1 w
                        | Some d \<Rightarrow> if modelVersion d \<noteq> [] then modelVersion d else MODEL_VERSION_1 w);
                  c = GetMetric \<lparr> metric = ''accelerometer'', labels = getLabels w ''accelerometer'',
                                  atomic = True \<rparr>
              in if supportsAccel w mv
                 then (Delegates c, n1\<lparr>api := record_call c (api n1)\<rparr>)
                 else (StreamErrors (metricNotSupportedByModel ''accelerometer'' mv), n1)))
   \<and> (didSelectDevice (api n) \<and> l \<noteq> [] \<and> timestamp w (api n) = Inr t \<longrightarrow>
        step w (AddMarker (Some l)) n =
          (let c = Firebase_dispatchAction
                     \<lparr> command = ''marker'', action = ''add'',
                       message = [(''label'', JStr l), (''timestamp'', JNum t)],
                       responseRequired = False, responseTimeout = None \<rparr>
           in if scopeRequiredByAction w ''marker'' ''add'' \<notin> userClaims (api n)
              then (Rejects (ScopeError (scopeRequiredByAction w ''marker'' ''add'')), n)
              else (Delegates c, n\<lparr>api := record_call c (api n)\<rparr>)))
   \<and> (selectedDevice (api n) = Some d \<and> supportsHaptics w (modelVersion d) \<and>
        haptics_loop (modelVersion d) (for_in effects) (getPlatformHapticMotors w (modelVersion d))
          = Inr req \<longrightarrow>
        step w (Haptics effects) n =
          (let n1 = n\<lparr>api := record_call (Api ''getSelectedDevice'') (api n)\<rparr>;
               c = Firebase_dispatchAction
                     \<lparr> command = ''haptics'', action = ''queue'',
                       message = [(''effects'', JObj (map (\<lambda>(k, es). (k, JArr (map JStr es))) req))],
                       responseRequired = True, responseTimeout = Some 1000 \<rparr>
           in if scopeRequiredByFunctionName w ''getSelectedDevice'' \<notin> userClaims (api n)
              then (Rejects (ScopeError (scopeRequiredByFunctionName w ''getSelectedDevice'')), n)
              else if scopeRequiredByAction w ''haptics'' ''queue'' \<notin> userClaims (api n)
              then (Rejects (ScopeError (scopeRequiredByAction w ''haptics'' ''queue'')), n1)
              else (Delegates c, n1\<lparr>api := record_call c (api n1)\<rparr>)))"
proof -
  have 1: "authorize (userClaims (api n)) s = Some (ScopeError s) \<longleftrightarrow> s \<notin> userClaims (api n)"
    and 2: "authorize (userClaims (api n)) s = None \<longleftrightarrow> s \<in> userClaims (api n)"
    by (simp_all add: authorize_def)
  show ?thesis
    by (intro conjI)
       (rule 1 2 guard_denies_step scope_error_from_guard single_guard_step accelerometer_step
             addMarker_step haptics_step)+
qed

theorem guard_denies_exactly_when_scope_absent_witness:
  "''read:accelerometer'' \<in> set (required_scopes demo_world Accelerometer)
   \<and> ''read:accelerometer''
       \<notin> userClaims (api (backend (Some demo_device) [''read:getSelectedDevice''] None (Notion_new no_options)))
   \<and> step demo_world Accelerometer
        (backend (Some demo_device) [''read:getSelectedDevice''] None (Notion_new no_options))
       = (StreamErrors (ScopeError ''read:accelerometer''),
          backend (Some demo_device) [''read:getSelectedDevice''] None (Notion_new no_options))
   \<and> required_scopes demo_world (Brainwaves (Some ''raw'') []) = [''read:brainwaves'']
   \<and> single_guard (Brainwaves (Some ''raw'') [])
   \<and> step demo_world (Brainwaves (Some ''raw'') []) (Notion_new no_options)
       = (StreamErrors (ScopeError ''read:brainwaves''), Notion_new no_options)
   \<and> fst (step demo_world (Brainwaves (Some ''raw'') [])
            (backend None [''read:brainwaves''] None (Notion_new no_options)))
       = Delegates (GetMetric \<lparr> metric = ''brainwaves'', labels = [''raw''], atomic = False \<rparr>)
   \<and> step demo_world (Haptics [(''P7'', [''tripleClick100''])])
        (backend (Some demo_device) [''read:getSelectedDevice''] None (Notion_new no_options))
       = (Rejects (ScopeError ''write:haptics''),
          (backend (Some demo_device) [''read:getSelectedDevice''] None (Notion_new no_options))
            \<lparr>api := record_call (Api ''getSelectedDevice'')
                      (api (backend (Some demo_device) [''read:getSelectedDevice''] None
                              (Notion_new no_options)))\<rparr>)
   \<and> step demo_world (AddMarker (Some ''eyes-closed''))
        (backend (Some demo_device) [] None (Notion_new no_options))
       = (Rejects (ScopeError ''write:marker''),
          backend (Some demo_device) [] None (Notion_new no_options))"
proof -
  let ?n = "Notion_new no_options"
  let ?g = "backend (Some demo_device) [''read:getSelectedDevice''] None (Notion_new no_options)"
  let ?b = "backend None [''read:brainwaves''] None (Notion_new no_options)"
  let ?d = "backend (Some demo_device) [] None (Notion_new no_options)"
  let ?x = "Brainwaves (Some ''raw'') []"
  have sc: "scopeRequiredByFunctionName demo_world ''accelerometer'' = ''read:accelerometer''"
    "scopeRequiredByFunctionName demo_world ''getSelectedDevice'' = ''read:getSelectedDevice''"
    "scopeRequiredByAction demo_world ''haptics'' ''queue'' = ''write:haptics''"
    "scopeRequiredByAction demo_world ''marker'' ''add'' = ''write:marker''"
    "date_now demo_world = 1000"
    by (simp_all add: demo_world_def)
  have cl: "userClaims (api ?n) = {}" "userClaims (api ?g) = {''read:getSelectedDevice''}"
    "userClaims (api ?b) = {''read:brainwaves''}" "userClaims (api ?d) = {}"
    by (simp_all add: backend_def demo_defs Let_def)
  have h1: "''read:accelerometer'' \<in> set (required_scopes demo_world Accelerometer)"
    by (simp add: sc)
  have h2: "''read:accelerometer'' \<notin> userClaims (api ?g)" by (simp add: cl)
  have h3: "required_scopes demo_world ?x = [''read:brainwaves'']" by (simp add: demo_world_def)
  have h4: "single_guard ?x" by simp
  have dev: "selectedDevice (api ?g) = Some demo_device" "didSelectDevice (api ?d)"
    "supportsHaptics demo_world (modelVersion demo_device)"
    "timestamp demo_world (api ?d) = Inr 1000"
    by (simp_all add: backend_def didSelectDevice_def timestamp_def demo_defs Let_def)
  have lp: "haptics_loop (modelVersion demo_device) (for_in [(''P7'', [''tripleClick100''])])
              (getPlatformHapticMotors demo_world (modelVersion demo_device))
            = Inr [(''P7'', [''tripleClick100'']), (''P8'', [])]"
    by (simp add: for_in_def is_array_index_def is_digit_def demo_defs)
  note acc = guard_denies_exactly_when_scope_absent
    [of ?g _ demo_world, THEN conjunct2, THEN conjunct2, THEN conjunct2, THEN conjunct2,
     THEN conjunct2, THEN conjunct1]
  note one = guard_denies_exactly_when_scope_absent
    [THEN conjunct2, THEN conjunct2, THEN conjunct2, THEN conjunct2, THEN conjunct1, rule_format]
  note mrk = guard_denies_exactly_when_scope_absent
    [of ?d _ demo_world _ "''eyes-closed''" 1000, THEN conjunct2, THEN conjunct2, THEN conjunct2,
     THEN conjunct2, THEN conjunct2, THEN conjunct2, THEN conjunct1, rule_format]
  note hap = guard_denies_exactly_when_scope_absent
    [of ?g _ demo_world _ _ _ demo_device "[(''P7'', [''tripleClick100''])]"
        "[(''P7'', [''tripleClick100'']), (''P8'', [])]",
     THEN conjunct2, THEN conjunct2, THEN conjunct2, THEN conjunct2, THEN conjunct2,
     THEN conjunct2, THEN conjunct2, rule_format]
  have a: "step demo_world Accelerometer ?g = (StreamErrors (ScopeError ''read:accelerometer''), ?g)"
    unfolding acc by (simp add: sc cl)
  have b1: "step demo_world ?x ?n = (StreamErrors (ScopeError ''read:brainwaves''), ?n)"
    using one[of demo_world ?x "''read:brainwaves''" ?n, OF conjI[OF h3 h4]]
    by (simp add: cl surfaced_def)
  have b2: "fst (step demo_world ?x ?b)
       = Delegates (GetMetric \<lparr> metric = ''brainwaves'', labels = [''raw''], atomic = False \<rparr>)"
    using one[of demo_world ?x "''read:brainwaves''" ?b, OF conjI[OF h3 h4]]
    by (auto simp: cl brainwaves_def guarded_stream_def via_api_def label_list_def
          split: option.splits)
  have c: "step demo_world (Haptics [(''P7'', [''tripleClick100''])]) ?g
       = (Rejects (ScopeError ''write:haptics''),
          ?g\<lparr>api := record_call (Api ''getSelectedDevice'') (api ?g)\<rparr>)"
    using hap[OF conjI[OF dev(1) conjI[OF dev(3) lp]]] by (simp add: sc cl Let_def)
  have d: "step demo_world (AddMarker (Some ''eyes-closed'')) ?d
       = (Rejects (ScopeError ''write:marker''), ?d)"
    using mrk[OF conjI[OF dev(2) conjI[OF _ dev(4)]]] by (simp add: sc cl Let_def)
  from h1 h2 h3 h4 a b1 b2 c d show ?thesis by simp
qed

text \<open>
  The claim C3 as stated fails. With no device selected \<open>dispatchAction\<close> and \<open>getInfo\<close>
  reject with \<open>mustSelectDevice\<close>, not with a scope error, when the scope is absent, and
  reject all the same when the scope is present. And with no claims at all
  \<open>training.stopAll()\<close> dispatches the action that \<open>dispatchAction\<close> rejects with a scope
  error.
\<close>

theorem device_check_before_guard_and_training_unguarded:
  "step demo_world
     (DispatchAction \<lparr> command = ''training'', action = ''stopAll'', message = [],
                       responseRequired = False, responseTimeout = None \<rparr>)
     (Notion_new no_options)
     = (Rejects mustSelectDevice, Notion_new no_options)
   \<and> step demo_world
     (DispatchAction \<lparr> command = ''training'', action = ''stopAll'', message = [],
                       responseRequired = False, responseTimeout = None \<rparr>)
     (backend None [''write:training''] None (Notion_new no_options))
     = (Rejects mustSelectDevice, backend None [''write:training''] None (Notion_new no_options))
   \<and> step demo_world GetInfo (backend None [''read:getInfo''] None (Notion_new no_options))
     = (Rejects mustSelectDevice, backend None [''read:getInfo''] None (Notion_new no_options))
   \<and> step demo_world
     (DispatchAction \<lparr> command = ''training'', action = ''stopAll'', message = [],
                       responseRequired = False, responseTimeout = None \<rparr>)
     (backend (Some demo_device) [] None (Notion_new no_options))
     = (Rejects (ScopeError ''write:training''),
        backend (Some demo_device) [] None (Notion_new no_options))
   \<and> userClaims (api (backend (Some demo_device) [] None (Notion_new no_options))) = {}
   \<and> step demo_world TrainingStopAll (backend (Some demo_device) [] None (Notion_new no_options))
     = (Returns JUndefined,
        (backend (Some demo_device) [] None (Notion_new no_options))
          \<lparr>api := record_call
                    (Firebase_dispatchAction
                       \<lparr> command = ''training'', action = ''stopAll'', message = [],
                         responseRequired = False, responseTimeout = None \<rparr>)
                    (api (backend (Some demo_device) [] None (Notion_new no_options)))\<rparr>)"
  by (simp add: dispatchAction_def getInfo_def training_stopAll_def actions_dispatch_def
        didSelectDevice_def backend_def guard_defs demo_defs Let_def)

text \<open>
  C7, as the code has it: for every operation but \<open>addMarker\<close> and every input, a failure
  the method finds (no device selected, a denying guard, a wrong argument, an unsupported
  platform, an awaited promise that rejects) reaches the caller as that error value, with
  its kind and its message: as a rejected promise, or as an errored stream where the
  method returns an observable, and never as a synchronous exception, except in the three
  methods of \<open>training\<close>, which are plain functions and throw it. Where the method finds no
  failure the call does not fail. \<open>getInfo\<close>, \<open>dispatchAction\<close>, \<open>haptics\<close>, \<open>changeSettings\<close> and
  \<open>skill\<close> reject with \<open>mustSelectDevice\<close>, and the methods of \<open>training\<close> throw it, when no
  device is selected, and leave the instance as it was.
\<close>

theorem failures_by_value_except_throwing_methods:
  "((\<forall>l. x \<noteq> AddMarker l) \<and> detected_failure w n x = Some e' \<longrightarrow>
       fst (step w x n) = surfaced x e')
   \<and> ((\<forall>l. x \<noteq> AddMarker l) \<and> detected_failure w n x = None \<longrightarrow> \<not> failed (fst (step w x n)))
   \<and> (\<not> throwing_method x \<longrightarrow> fst (step w x n) \<noteq> Throws e)
   \<and> (\<not> didSelectDevice (api n) \<longrightarrow>
        step w GetInfo n = (Rejects mustSelectDevice, n)
        \<and> step w (DispatchAction act) n = (Rejects mustSelectDevice, n)
        \<and> step w (Haptics effects) n = (Rejects mustSelectDevice, n)
        \<and> step w ChangeSettings n = (Rejects mustSelectDevice, n)
        \<and> step w (Skill bundleId) n = (Rejects mustSelectDevice, n)
        \<and> step w (TrainingRecord training) n = (Throws mustSelectDevice, n)
        \<and> step w (TrainingStop training) n = (Throws mustSelectDevice, n)
        \<and> step w TrainingStopAll n = (Throws mustSelectDevice, n))"
proof -
  have d: "\<not> didSelectDevice (api n) \<longrightarrow>
        step w GetInfo n = (Rejects mustSelectDevice, n)
        \<and> step w (DispatchAction act) n = (Rejects mustSelectDevice, n)
        \<and> step w (Haptics effects) n = (Rejects mustSelectDevice, n)
        \<and> step w ChangeSettings n = (Rejects mustSelectDevice, n)
        \<and> step w (Skill bundleId) n = (Rejects mustSelectDevice, n)
        \<and> step w (TrainingRecord training) n = (Throws mustSelectDevice, n)
        \<and> step w (TrainingStop training) n = (Throws mustSelectDevice, n)
        \<and> step w TrainingStopAll n = (Throws mustSelectDevice, n)"
    by (simp add: getInfo_def dispatchAction_def haptics_def changeSettings_def skill_def
          training_record_def training_stop_def training_stopAll_def)
  have t: "\<not> throwing_method x \<longrightarrow> fst (step w x n) \<noteq> Throws e"
    using no_throw_step[of x w n e] by blast
  show ?thesis
    by (intro conjI) (rule failure_surfaced no_failure_found t d)+
qed

theorem failures_by_value_except_throwing_methods_witness:
  "detected_failure demo_world (Notion_new no_options) GetInfo = Some mustSelectDevice
   \<and> step demo_world GetInfo (Notion_new no_options) = (Rejects mustSelectDevice, Notion_new no_options)
   \<and> detected_failure demo_world (Notion_new no_options) (EnableLocalMode (JNum 1))
       = Some (TypeError ''enableLocalMode can only accept a boolean'')
   \<and> fst (step demo_world (EnableLocalMode (JNum 1)) (Notion_new no_options))
       = Rejects (TypeError ''enableLocalMode can only accept a boolean'')
   \<and> detected_failure demo_world (Notion_new no_options) Status = Some (ScopeError ''read:status'')
   \<and> fst (step demo_world Status (Notion_new no_options)) = StreamErrors (ScopeError ''read:status'')
   \<and> detected_failure demo_world (Notion_new no_options) (EnableLocalMode (JBool False)) = None
   \<and> \<not> failed (fst (step demo_world (EnableLocalMode (JBool False)) (Notion_new no_options)))
   \<and> step demo_world TrainingStopAll (Notion_new no_options)
       = (Throws mustSelectDevice, Notion_new no_options)"
proof -
  let ?n = "Notion_new no_options"
  have nd: "\<not> didSelectDevice (api ?n)" "userClaims (api ?n) = {}"
    by (simp_all add: didSelectDevice_def demo_defs Let_def)
  have f1: "detected_failure demo_world ?n GetInfo = Some mustSelectDevice"
    and f2: "detected_failure demo_world ?n (EnableLocalMode (JNum 1))
       = Some (TypeError ''enableLocalMode can only accept a boolean'')"
    and f3: "detected_failure demo_world ?n Status = Some (ScopeError ''read:status'')"
    and f4: "detected_failure demo_world ?n (EnableLocalMode (JBool False)) = None"
    using nd by (simp_all add: authorize_def demo_world_def)
  have s: "surfaced GetInfo mustSelectDevice = Rejects mustSelectDevice"
    "surfaced (EnableLocalMode (JNum 1)) (TypeError ''enableLocalMode can only accept a boolean'')
       = Rejects (TypeError ''enableLocalMode can only accept a boolean'')"
    "surfaced Status (ScopeError ''read:status'') = StreamErrors (ScopeError ''read:status'')"
    by (simp_all add: surfaced_def)
  note found = failures_by_value_except_throwing_methods[THEN conjunct1, rule_format]
  note none = failures_by_value_except_throwing_methods
    [THEN conjunct2, THEN conjunct1, rule_format]
  note nodev = failures_by_value_except_throwing_methods
    [of _ demo_world ?n, THEN conjunct2, THEN conjunct2, THEN conjunct2, rule_format, OF nd(1)]
  have a: "step demo_world GetInfo ?n = (Rejects mustSelectDevice, ?n)"
    "step demo_world TrainingStopAll ?n = (Throws mustSelectDevice, ?n)"
    using nodev by blast+
  have b: "fst (step demo_world (EnableLocalMode (JNum 1)) ?n)
       = Rejects (TypeError ''enableLocalMode can only accept a boolean'')"
    using found[of "EnableLocalMode (JNum 1)" demo_world ?n, OF conjI[OF _ f2]] s by simp
  have c: "fst (step demo_world Status ?n) = StreamErrors (ScopeError ''read:status'')"
    using found[of Status demo_world ?n, OF conjI[OF _ f3]] s by simp
  have d: "\<not> failed (fst (step demo_world (EnableLocalMode (JBool False)) ?n))"
    using none[of "EnableLocalMode (JBool False)" demo_world ?n, OF conjI[OF _ f4]] by simp
  from f1 f2 f3 f4 a b c d show ?thesis by simp
qed

text \<open>
  The claim C7 as stated fails: with no device selected \<open>training.record\<close> and \<open>addMarker\<close>
  throw \<open>mustSelectDevice\<close>, and with a device selected \<open>addMarker\<close> with an empty label
  throws as well.
\<close>

theorem training_record_and_addMarker_throw:
  "fst (step demo_world (TrainingRecord [(''metric'', JStr ''kinesis''), (''label'', JStr ''push'')])
          (Notion_new no_options)) = Throws mustSelectDevice
   \<and> fst (step demo_world (AddMarker (Some ''eyes-closed'')) (Notion_new no_options))
       = Throws mustSelectDevice
   \<and> fst (step demo_world (AddMarker (Some ''''))
          (backend (Some demo_device) [''write:marker''] None (Notion_new no_options)))
       = Throws (Error (prefix @ ''A label is required for addMarker''))"
  by (simp add: training_record_def addMarker_def didSelectDevice_def backend_def demo_defs Let_def)

text \<open>
  C10: the constructor stores the merged options and hands the same object to the API
  client, which creates the on-device socket exactly when \<open>options.onDeviceSocketUrl\<close> is
  a non-empty string. No operation assigns \<open>options\<close> or \<open>onDeviceSocket\<close> again, so after
  any history of operations both are what the constructor made them, and whether
  \<open>shouldRerouteToDevice\<close> can hold for an allow-listed metric is fixed with them.
\<close>

theorem options_and_socket_fixed_at_construction:
  "options (Notion_new g) = merge_options defaultOptions g
   \<and> api_options (api (Notion_new g)) = options (Notion_new g)
   \<and> (onDeviceSocket (api (Notion_new g)) \<noteq> None \<longleftrightarrow> truthy_str (given_onDeviceSocketUrl g))
   \<and> options (snd (step w x n)) = options n
   \<and> api_options (api (snd (step w x n))) = api_options (api n)
   \<and> onDeviceSocket (api (snd (step w x n))) = onDeviceSocket (api n)
   \<and> options (run hst (Notion_new g)) = merge_options defaultOptions g
   \<and> api_options (api (run hst (Notion_new g))) = merge_options defaultOptions g
   \<and> onDeviceSocket (api (run hst (Notion_new g))) = onDeviceSocket (api (Notion_new g))
   \<and> (shouldRerouteToDevice w (api (run hst (Notion_new g))) m \<longleftrightarrow>
        truthy_str (given_onDeviceSocketUrl g) \<and> isNotionMetric w m)"
proof -
  have r: "options (run hst (Notion_new g)) = merge_options defaultOptions g"
    "api_options (api (run hst (Notion_new g))) = merge_options defaultOptions g"
    "onDeviceSocket (api (run hst (Notion_new g))) = onDeviceSocket (api (Notion_new g))"
    using frame_run[of hst "Notion_new g"] by (simp_all add: new_instance)
  from r(3) new_instance(3)[of g]
  have s: "shouldRerouteToDevice w (api (run hst (Notion_new g))) m \<longleftrightarrow>
        truthy_str (given_onDeviceSocketUrl g) \<and> isNotionMetric w m"
    by (simp add: shouldRerouteToDevice_def)
  from r s frame_step[of w x n] new_instance(1,2,3)[of g] show ?thesis by simp
qed

theorem options_and_socket_fixed_at_construction_witness:
  "onDeviceSocket
     (api (run [(demo_world, Login JNull), (demo_world, EnableLocalMode (JBool False)),
                (demo_world, Disconnect)] (Notion_new socket_options)))
     = Some \<lparr> ws_deviceId = None, ws_socketUrl = ''ws://crown.local'' \<rparr>
   \<and> onDeviceSocket (api (run [(demo_world, Disconnect)] (Notion_new no_options))) = None
   \<and> onDeviceSocketUrl (options (run [(demo_world, Disconnect)] (Notion_new socket_options)))
       = Some ''ws://crown.local''"
proof -
  have s: "onDeviceSocket (api (Notion_new socket_options))
             = Some \<lparr> ws_deviceId = None, ws_socketUrl = ''ws://crown.local'' \<rparr>"
    "onDeviceSocket (api (Notion_new no_options)) = None"
    "onDeviceSocketUrl (merge_options defaultOptions socket_options) = Some ''ws://crown.local''"
    by (simp_all add: demo_defs Let_def)
  from options_and_socket_fixed_at_construction[of socket_options _ _ _
         "[(demo_world, Login JNull), (demo_world, EnableLocalMode (JBool False)), (demo_world, Disconnect)]"]
    options_and_socket_fixed_at_construction[of no_options _ _ _ "[(demo_world, Disconnect)]"]
    options_and_socket_fixed_at_construction[of socket_options _ _ _ "[(demo_world, Disconnect)]"] s
  show ?thesis by simp
qed

text \<open>
  C1: after any history of operations on an instance the multiplexer is consistent: each
  key has one physical subscription, whose \<open>listenerCount\<close> is the number of logical
  listeners attached under the key. Two \<open>metrics.subscribe\<close> calls in a row whose requests
  have the same metric, the same label set and the same atomic flag (on one instance the
  metric fixes the routed transport) normalise to the same key, get different subscription
  ids, and share the one physical subscription of that key: the second call creates none,
  the pair creates at most one, and the count of the shared one equals the number of
  listeners attached under the key, the two new ones among them.
\<close>

theorem one_physical_subscription_per_key:
  assumes "a = api (run hst (Notion_new g))"
    and "metric r1 = metric r2" and "set (labels r1) = set (labels r2)" and "atomic r1 = atomic r2"
    and "metrics_subscribe w r1 a = (s1, a1)"
    and "metrics_subscribe w r2 a1 = (s2, a2)"
  shows "mux_inv (firebase a) \<and> mux_inv (firebase a2)
       \<and> key_of (routed w a r1) = key_of (routed w a1 r2)
       \<and> subscriptionId s1 \<noteq> subscriptionId s2
       \<and> length (filter (\<lambda>p. key p = key_of (routed w a r1)) (table (firebase a2))) = 1
       \<and> nextTransportHandle (firebase a2) = nextTransportHandle (firebase a1)
       \<and> nextTransportHandle (firebase a1) \<le> Suc (nextTransportHandle (firebase a))
       \<and> (\<exists>p \<in> set (table (firebase a2)).
             key p = key_of (routed w a r1)
             \<and> listenerCount p = int (listeners_of (firebase a2) (key_of (routed w a r1)))
             \<and> 2 \<le> listenerCount p)
       \<and> (subscriptionId s1, key_of (routed w a r1)) \<in> set (attached (firebase a2))
       \<and> (subscriptionId s2, key_of (routed w a r1)) \<in> set (attached (firebase a2))"
proof -
  have inv: "mux_inv (firebase a)"
    unfolding assms(1) by (rule mux_inv_run) (simp add: new_instance mux_inv_new)
  from assms(5) have u1: "subscribeToMetric (routed w a r1) (firebase a) = (s1, firebase a1)"
    and sock: "onDeviceSocket a1 = onDeviceSocket a"
    by (auto simp: metrics_subscribe_def record_call_def Let_def split: prod.splits)
  from sock have same: "routed w a1 r2 = routed w a r2"
    by (simp add: routed_def shouldRerouteToDevice_def)
  from assms(6) have u2: "subscribeToMetric (routed w a r2) (firebase a1) = (s2, firebase a2)"
    unfolding same[symmetric]
    by (auto simp: metrics_subscribe_def record_call_def Let_def split: prod.splits)
  from assms(2,3,4) have eq: "key_of (routed w a r1) = key_of (routed w a r2)"
    by (simp add: key_of_eq_iff routed_def)
  note p = subscribe_pair[OF inv eq u1 u2]
  from inv p eq same show ?thesis by simp
qed

theorem one_physical_subscription_per_key_witness:
  "metric \<lparr> metric = ''brainwaves'', labels = [''raw'', ''psd''], atomic = False \<rparr>
     = metric \<lparr> metric = ''brainwaves'', labels = [''psd'', ''raw'', ''psd''], atomic = False \<rparr>
   \<and> set (labels \<lparr> metric = ''brainwaves'', labels = [''raw'', ''psd''], atomic = False \<rparr>)
     = set (labels \<lparr> metric = ''brainwaves'', labels = [''psd'', ''raw'', ''psd''], atomic = False \<rparr>)
   \<and> mux_inv (firebase (api (run
        [(demo_world, MetricsSubscribe \<lparr> metric = ''brainwaves'', labels = [''raw'', ''psd''], atomic = False \<rparr>),
         (demo_world, MetricsSubscribe \<lparr> metric = ''brainwaves'', labels = [''psd'', ''raw'', ''psd''], atomic = False \<rparr>)]
        (Notion_new socket_options))))
   \<and> table (firebase (api (run
        [(demo_world, MetricsSubscribe \<lparr> metric = ''brainwaves'', labels = [''raw'', ''psd''], atomic = False \<rparr>),
         (demo_world, MetricsSubscribe \<lparr> metric = ''brainwaves'', labels = [''psd'', ''raw'', ''psd''], atomic = False \<rparr>)]
        (Notion_new socket_options))))
     = [\<lparr> key = (''brainwaves'', [''psd'', ''raw''], False, LocalSocket),
          transportHandle = 0, listenerCount = 2 \<rparr>]
   \<and> attached (firebase (api (run
        [(demo_world, MetricsSubscribe \<lparr> metric = ''brainwaves'', labels = [''raw'', ''psd''], atomic = False \<rparr>),
         (demo_world, MetricsSubscribe \<lparr> metric = ''brainwaves'', labels = [''psd'', ''raw'', ''psd''], atomic = False \<rparr>)]
        (Notion_new socket_options))))
     = [(0, (''brainwaves'', [''psd'', ''raw''], False, LocalSocket)),
        (1, (''brainwaves'', [''psd'', ''raw''], False, LocalSocket))]"
proof -
  let ?r1 = "\<lparr> metric = ''brainwaves'', labels = [''raw'', ''psd''], atomic = False \<rparr>"
  let ?r2 = "\<lparr> metric = ''brainwaves'', labels = [''psd'', ''raw'', ''psd''], atomic = False \<rparr>"
  let ?a = "api (run [] (Notion_new socket_options))"
  let ?c1 = "metrics_subscribe demo_world ?r1 ?a"
  let ?c2 = "metrics_subscribe demo_world ?r2 (snd ?c1)"
  have h2: "metric ?r1 = metric ?r2" by simp
  have h3: "set (labels ?r1) = set (labels ?r2)" by auto
  have h4: "atomic ?r1 = atomic ?r2" by simp
  have h5: "?c1 = (fst ?c1, snd ?c1)" and h6: "?c2 = (fst ?c2, snd ?c2)" by simp_all
  have r: "run [(demo_world, MetricsSubscribe ?r1), (demo_world, MetricsSubscribe ?r2)]
             (Notion_new socket_options) = (Notion_new socket_options)\<lparr>api := snd ?c2\<rparr>"
    by simp
  have srt: "normalize_labels [''raw'', ''psd''] = [''psd'', ''raw'']"
    "normalize_labels [''psd'', ''raw'', ''psd''] = [''psd'', ''raw'']"
    by (simp_all add: normalize_labels_def)
  have t: "table (firebase (snd ?c2))
     = [\<lparr> key = (''brainwaves'', [''psd'', ''raw''], False, LocalSocket),
          transportHandle = 0, listenerCount = 2 \<rparr>]"
    "attached (firebase (snd ?c2))
     = [(0, (''brainwaves'', [''psd'', ''raw''], False, LocalSocket)),
        (1, (''brainwaves'', [''psd'', ''raw''], False, LocalSocket))]"
    by (simp_all add: metrics_subscribe_def subscribeToMetric_def routed_def key_of_def srt
          shouldRerouteToDevice_def isNotionMetric_def record_call_def demo_defs Let_def)
  from one_physical_subscription_per_key[OF refl h2 h3 h4 h5 h6] h2 h3 r t
  show ?thesis by simp
qed

text \<open>
  C6: while synchronisation is enabled (window size at least 1), a probe moves the window
  to the latest samples, the new one among them, and sets the offset to
  \<open>deviceTime - (sendTime + receiveTime) div 2\<close> of a sample of the window whose round trip
  \<open>receiveTime - sendTime\<close> is the smallest; \<open>now()\<close> is then local time plus that offset,
  and a probe that timed out changes nothing. For the single sample
  (send = 0, receive = 100, device = 60) the offset is 10 and \<open>now()\<close> is local time + 10.
\<close>

theorem offset_from_smallest_round_trip:
  assumes "enabled ts" and "0 < windowSize ts"
  shows "(\<exists>b \<in> set (window (on_probe (Some p) ts)).
            offsetMillis (on_probe (Some p) ts) = deviceTime b - (sendTime b + receiveTime b) div 2
            \<and> (\<forall>q \<in> set (window (on_probe (Some p) ts)).
                  receiveTime b - sendTime b \<le> receiveTime q - sendTime q))
       \<and> window (on_probe (Some p) ts) = slide (windowSize ts) (window ts @ [p])
       \<and> p \<in> set (window (on_probe (Some p) ts))
       \<and> length (window (on_probe (Some p) ts)) \<le> windowSize ts
       \<and> now (on_probe (Some p) ts) t = t + offsetMillis (on_probe (Some p) ts)
       \<and> on_probe None ts = ts
       \<and> (window ts = [] \<and> sendTime p = 0 \<and> receiveTime p = 100 \<and> deviceTime p = 60 \<longrightarrow>
            offsetMillis (on_probe (Some p) ts) = 10 \<and> now (on_probe (Some p) ts) t = t + 10)"
proof -
  let ?ts = "on_probe (Some p) ts"
  from on_probe_enabled[OF assms, of p] obtain b bs where
    w: "window ?ts = slide (windowSize ts) (window ts @ [p])"
    and bb: "window ?ts = b # bs" "offsetMillis ?ts = estimate (best_probe b bs)"
    and en: "enabled ?ts" by blast
  have mem: "best_probe b bs \<in> set (window ?ts)" unfolding bb(1) by (rule best_probe_mem)
  have "\<forall>q \<in> set (window ?ts). latency (best_probe b bs) \<le> latency q"
    unfolding bb(1) by (rule best_probe_min)
  with mem bb(2) have 1: "\<exists>b \<in> set (window ?ts).
            offsetMillis ?ts = deviceTime b - (sendTime b + receiveTime b) div 2
            \<and> (\<forall>q \<in> set (window ?ts). receiveTime b - sendTime b \<le> receiveTime q - sendTime q)"
    by (auto simp: estimate_def latency_def)
  have 3: "p \<in> set (window ?ts)" unfolding w using slide_snoc[OF assms(2)] by simp
  have 4: "length (window ?ts) \<le> windowSize ts" unfolding w by (simp add: slide_def)
  have 5: "now ?ts t = t + offsetMillis ?ts" using en by (simp add: now_def)
  have 6: "on_probe None ts = ts" by (simp add: on_probe_def)
  have 7: "window ts = [] \<and> sendTime p = 0 \<and> receiveTime p = 100 \<and> deviceTime p = 60 \<longrightarrow>
            offsetMillis ?ts = 10 \<and> now ?ts t = t + 10"
  proof
    assume a: "window ts = [] \<and> sendTime p = 0 \<and> receiveTime p = 100 \<and> deviceTime p = 60"
    then have "slide (windowSize ts) (window ts @ [p]) = [p]"
      using slide_snoc[OF assms(2), of "[]" p] by (simp add: slide_def)
    with w bb have "b = p" "bs = []" by simp_all
    with bb(2) a have "offsetMillis ?ts = 10" by (simp add: estimate_def)
    with 5 show "offsetMillis ?ts = 10 \<and> now ?ts t = t + 10" by simp
  qed
  from 1 w 3 4 5 6 7 show ?thesis by blast
qed

theorem offset_from_smallest_round_trip_witness:
  "enabled (enable (Timesync_new 5)) \<and> 0 < windowSize (enable (Timesync_new 5))
   \<and> window (enable (Timesync_new 5)) = []
   \<and> offsetMillis (on_probe (Some demo_probe) (enable (Timesync_new 5))) = 10
   \<and> now (on_probe (Some demo_probe) (enable (Timesync_new 5))) 1000 = 1010
   \<and> timestamp demo_world
        (api (run [(demo_world, Login JNull), (demo_world, Probe (Some demo_probe))]
                  (Notion_new timesync_options))) = Inr 1010"
proof -
  have h1: "enabled (enable (Timesync_new 5))" and h2: "0 < windowSize (enable (Timesync_new 5))"
    and h3: "window (enable (Timesync_new 5)) = []"
    by (simp_all add: enable_def Timesync_new_def)
  have d: "sendTime demo_probe = 0 \<and> receiveTime demo_probe = 100 \<and> deviceTime demo_probe = 60"
    by (simp add: demo_probe_def)
  have a: "api_timesync (api (run [(demo_world, Login JNull), (demo_world, Probe (Some demo_probe))]
                  (Notion_new timesync_options)))
           = Some (on_probe (Some demo_probe) (enable (Timesync_new 5)))"
    "timesync (api_options (api (run [(demo_world, Login JNull), (demo_world, Probe (Some demo_probe))]
                  (Notion_new timesync_options))))"
    by (simp_all add: login_def api_login_def probe_done_def record_call_def demo_defs Let_def)
  from offset_from_smallest_round_trip[OF h1 h2, of demo_probe 1000] h1 h2 h3 d
  have o: "offsetMillis (on_probe (Some demo_probe) (enable (Timesync_new 5))) = 10"
    "now (on_probe (Some demo_probe) (enable (Timesync_new 5))) 1000 = 1010"
    by simp_all
  from a o have "timestamp demo_world
        (api (run [(demo_world, Login JNull), (demo_world, Probe (Some demo_probe))]
                  (Notion_new timesync_options))) = Inr 1010"
    by (simp add: timestamp_def demo_world_def)
  with h1 h2 h3 o show ?thesis by simp
qed

section \<open>Further properties of the code\<close>

lemma set_motor_keys:
  "k \<in> set (map fst req) \<Longrightarrow> map fst (set_motor k v req) = map fst req"
proof (induction req)
  case Nil
  then show ?case by simp
next
  case (Cons x req)
  obtain k' v' where x: "x = (k', v')" by (cases x)
  show ?case
  proof (cases "k = k'")
    case True
    then show ?thesis by (simp add: x)
  next
    case False
    with Cons.prems x have "k \<in> set (map fst req)" by auto
    from Cons.IH[OF this] False show ?thesis by (simp add: x)
  qed
qed

lemma digit_7: "digit 7 = CHR ''7''"
  by (simp add: digit_def)

lemma map_of_obj_set: "map_of (obj_set k v a) = (map_of a)(k \<mapsto> v)"
  by (induction a) auto

lemma map_of_obj_spread: "map_of (obj_spread a b) = map_of a ++ map_of (rev b)"
proof (induction b arbitrary: a)
  case Nil
  then show ?case by simp
next
  case (Cons kv b)
  obtain k v where kv: "kv = (k, v)" by (cases kv)
  have "map_of (obj_spread a (kv # b)) = map_of (obj_set k v a) ++ map_of (rev b)"
    by (simp add: kv Cons.IH)
  also have "\<dots> = (map_of a ++ [k \<mapsto> v]) ++ map_of (rev b)"
    by (simp add: map_of_obj_set)
  also have "\<dots> = map_of a ++ map_of (rev (kv # b))"
    by (simp add: kv map_add_assoc)
  finally show ?case .
qed

text \<open>
  The loop of \<open>haptics\<close> accepts a request exactly when every key of \<open>effects\<close> is a motor
  location of the platform's request and carries at most 7 effects; the locations of the
  request it builds are those of the platform.
\<close>

lemma haptics_loop_accepts_iff:
  "((\<exists>req'. haptics_loop mv effects req = Inr req' \<and> map fst req' = map fst req)
      \<longleftrightarrow> (\<forall>e \<in> set effects. fst e \<in> set (map fst req) \<and> length (snd e) \<le> 7))
   \<and> ((\<exists>err. haptics_loop mv effects req = Inl err)
      \<longleftrightarrow> (\<exists>e \<in> set effects. fst e \<notin> set (map fst req) \<or> 7 < length (snd e)))"
proof (induction effects arbitrary: req)
  case Nil
  then show ?case by simp
next
  case (Cons e effects)
  obtain k es where e: "e = (k, es)" by (cases e)
  show ?case
  proof (cases "k \<in> set (map fst req) \<and> length es \<le> 7")
    case True
    then have keys: "map fst (set_motor k es req) = map fst req"
      by (simp add: set_motor_keys)
    from True have step: "haptics_loop mv (e # effects) req = haptics_loop mv effects (set_motor k es req)"
      by (simp add: e)
    from Cons.IH[of "set_motor k es req"] True show ?thesis
      unfolding step keys by (simp add: e)
  next
    case False
    then have "\<exists>err. haptics_loop mv (e # effects) req = Inl err"
      by (auto simp: e)
    with False show ?thesis by (auto simp: e)
  qed
qed

lemma haptics_loop_examples:
  "haptics_loop ''2'' [(''P7'', [''tripleClick100''])] [(''P7'', []), (''P8'', [])]
     = Inr [(''P7'', [''tripleClick100'']), (''P8'', [])]
   \<and> haptics_loop ''2'' [(''P9'', [''tripleClick100''])] [(''P7'', []), (''P8'', [])]
     = Inl (locationNotFound ''P9'' ''2'')
   \<and> haptics_loop ''2'' [(''P7'', replicate 8 ''tripleClick100'')] [(''P7'', []), (''P8'', [])]
     = Inl (exceededMaxItems 7)
   \<and> exceededMaxItems 7 = Error ''Neurosity SDK: Maximum items in array is 7''
   \<and> for_in [(''P9'', [''a'']), (''7'', [''b''])] = [(''7'', [''b'']), (''P9'', [''a''])]
   \<and> haptics_loop ''2'' (for_in [(''P9'', [''a'']), (''7'', [''b''])]) [(''P7'', []), (''P8'', [])]
     = Inl (locationNotFound ''7'' ''2'')"
proof -
  have a: "haptics_loop ''2'' [(''P7'', [''tripleClick100''])] [(''P7'', []), (''P8'', [])]
     = Inr [(''P7'', [''tripleClick100'']), (''P8'', [])]"
    by simp
  have b: "haptics_loop ''2'' [(''P9'', [''tripleClick100''])] [(''P7'', []), (''P8'', [])]
     = Inl (locationNotFound ''P9'' ''2'')"
    by simp
  have c: "haptics_loop ''2'' [(''P7'', replicate 8 ''tripleClick100'')] [(''P7'', []), (''P8'', [])]
     = Inl (exceededMaxItems 7)"
    by simp
  have d: "exceededMaxItems 7 = Error ''Neurosity SDK: Maximum items in array is 7''"
    by (simp add: exceededMaxItems_def prefix_def digit_7)
  have i: "is_array_index ''7''" "\<not> is_array_index ''P9''"
    by (simp_all add: is_array_index_def is_digit_def index_value_def digit_value_def)
  have e: "for_in [(''P9'', [''a'']), (''7'', [''b''])] = [(''7'', [''b'']), (''P9'', [''a''])]"
    by (simp add: for_in_def i)
  have f: "haptics_loop ''2'' (for_in [(''P9'', [''a'']), (''7'', [''b''])]) [(''P7'', []), (''P8'', [])]
     = Inl (locationNotFound ''7'' ''2'')"
    unfolding e by simp
  from a b c d e f show ?thesis by blast
qed

text \<open>
  \<open>training.record\<close> does not pass through the scope guard: with a device selected and a
  timestamp to read, it dispatches the action \<open>training/record\<close> whatever the claims are.
  In the message \<open>userId\<close> is \<open>api.user.uid\<close> or \<open>null\<close>, also when the caller passed a
  \<open>userId\<close>, while a key of the caller's object wins over the defaults \<open>fit\<close>, \<open>baseline\<close> and
  \<open>timestamp\<close>.
\<close>

lemma training_record_dispatches_unguarded:
  assumes "didSelectDevice (api n)" and "timestamp w (api n) = Inr t"
  shows "\<exists>msg. step w (TrainingRecord training) n
           = (Returns JUndefined,
              n\<lparr>api := record_call
                   (Firebase_dispatchAction
                      \<lparr> command = ''training'', action = ''record'', message = msg,
                        responseRequired = False, responseTimeout = None \<rparr>) (api n)\<rparr>)
         \<and> map_of msg ''userId'' = Some (case user (api n) of Some uid \<Rightarrow> JStr uid | None \<Rightarrow> JNull)
         \<and> (\<forall>k \<in> {''fit'', ''baseline'', ''timestamp''}.
               map_of msg k
                 = (case map_of (rev (for_in training)) k of
                      Some v \<Rightarrow> Some v
                    | None \<Rightarrow> map_of [(''fit'', JBool False), (''baseline'', JBool False),
                                         (''timestamp'', JNum t)] k))"
proof -
  define uid where "uid = (case user (api n) of Some uid \<Rightarrow> JStr uid | None \<Rightarrow> JNull)"
  define dflt where "dflt = [(''fit'', JBool False), (''baseline'', JBool False), (''timestamp'', JNum t)]"
  define msg where "msg = obj_spread (obj_spread dflt (for_in training)) [(''userId'', uid)]"
  have run: "step w (TrainingRecord training) n
           = (Returns JUndefined,
              n\<lparr>api := record_call
                   (Firebase_dispatchAction
                      \<lparr> command = ''training'', action = ''record'', message = msg,
                        responseRequired = False, responseTimeout = None \<rparr>) (api n)\<rparr>)"
    using assms
    by (simp add: training_record_def actions_dispatch_def Let_def msg_def dflt_def uid_def)
  have m: "map_of msg = (map_of dflt ++ map_of (rev (for_in training)))(''userId'' \<mapsto> uid)"
    by (simp add: msg_def map_of_obj_spread map_of_obj_set)
  have u: "map_of msg ''userId'' = Some uid" by (simp add: m)
  have d: "\<forall>k \<in> {''fit'', ''baseline'', ''timestamp''}.
               map_of msg k
                 = (case map_of (rev (for_in training)) k of Some v \<Rightarrow> Some v | None \<Rightarrow> map_of dflt k)"
    by (simp add: m map_add_def)
  from run u d show ?thesis unfolding uid_def dflt_def by blast
qed

lemma training_record_example:
  "didSelectDevice (api (backend (Some demo_device) [] (Some ''u1'') (Notion_new no_options)))
   \<and> timestamp demo_world (api (backend (Some demo_device) [] (Some ''u1'') (Notion_new no_options)))
       = Inr 1000
   \<and> trace (api (snd (step demo_world
        (TrainingRecord [(''metric'', JStr ''kinesis''), (''fit'', JBool True), (''userId'', JStr ''x'')])
        (backend (Some demo_device) [] (Some ''u1'') (Notion_new no_options)))))
     = [Firebase_dispatchAction
          \<lparr> command = ''training'', action = ''record'',
            message = [(''fit'', JBool True), (''baseline'', JBool False), (''timestamp'', JNum 1000),
                       (''metric'', JStr ''kinesis''), (''userId'', JStr ''u1'')],
            responseRequired = False, responseTimeout = None \<rparr>]"
proof -
  let ?n = "backend (Some demo_device) [] (Some ''u1'') (Notion_new no_options)"
  have h1: "didSelectDevice (api ?n)" by (simp add: didSelectDevice_def backend_def)
  have h2: "timestamp demo_world (api ?n) = Inr 1000"
    by (simp add: timestamp_def backend_def demo_defs Let_def)
  have fi: "for_in [(''metric'', JStr ''kinesis''), (''fit'', JBool True), (''userId'', JStr ''x'')]
              = [(''metric'', JStr ''kinesis''), (''fit'', JBool True), (''userId'', JStr ''x'')]"
    by (simp add: for_in_def is_array_index_def is_digit_def)
  have e: "trace (api (snd (step demo_world
        (TrainingRecord [(''metric'', JStr ''kinesis''), (''fit'', JBool True), (''userId'', JStr ''x'')]) ?n)))
     = [Firebase_dispatchAction
          \<lparr> command = ''training'', action = ''record'',
            message = [(''fit'', JBool True), (''baseline'', JBool False), (''timestamp'', JNum 1000),
                       (''metric'', JStr ''kinesis''), (''userId'', JStr ''u1'')],
            responseRequired = False, responseTimeout = None \<rparr>]"
    using h1 h2
    by (simp add: training_record_def actions_dispatch_def record_call_def backend_def demo_defs fi Let_def)
  from h1 h2 e show ?thesis by blast
qed

end
